theory Spec2Isabelle
  imports Complex_Main
begin

section \<open>Python values\<close>

text \<open>
  Exceptions of the Python source are values.  \<open>SystemExit\<close> is what the module's
  \<open>error(message)\<close> function ends with (\<open>sys.exit(1)\<close>).
\<close>

datatype py_error =
    AttributeError string
  | UnboundLocalError string
  | NotImplementedError string
  | IndexError
  | TypeError
  | ValueError
  | OverflowError
  | ZeroDivisionError
  | SystemExit string

text \<open>
  A Python \<open>float\<close> is idealised as a real number; \<open>float('nan')\<close> is the
  separate value \<open>NaN\<close>.
\<close>

datatype pyfloat = NaN | Num real

fun isnan :: "pyfloat \<Rightarrow> bool" where
  "isnan NaN = True"
| "isnan (Num x) = False"

section \<open>Basic measures\<close>

text \<open>
  \<open>BasicBooleanMeasures\<close> carries the symbol-wise counts \<open>pp\<close>, \<open>pa\<close>, \<open>ap\<close>,
  \<open>aa\<close>, the gross counts \<open>pp_[i]\<close> and the site-wise counts \<open>site_m[i]\<close>,
  \<open>site_nm[i]\<close>, \<open>site_len[i]\<close>, indexed by the annotation number, and \<open>seq_n\<close>.
  The values are integers for one sequence and floats (idealised as reals) once
  \<open>BasicCalculator.process_group\<close> has divided them, hence the type parameter.
\<close>

record 'n BasicBooleanMeasures =
  pp :: 'n
  pp_of :: "nat \<Rightarrow> 'n"
  pa :: 'n
  ap :: 'n
  aa :: 'n
  site_m :: "nat \<Rightarrow> 'n"
  site_nm :: "nat \<Rightarrow> 'n"
  site_len :: "nat \<Rightarrow> 'n"
  seq_n :: 'n

text \<open>
  Modelled from the spec: the constructor \<open>BasicBooleanMeasures()\<close> is defined in
  \<open>slalom_structures\<close>; the measures are counts that the calculators increment
  (\<open>site_m[i] += 1\<close>), so every count starts at zero.
\<close>

definition BasicBooleanMeasures_init :: "'n::zero BasicBooleanMeasures" where
  "BasicBooleanMeasures_init =
     \<lparr>pp = 0, pp_of = (\<lambda>i. 0), pa = 0, ap = 0, aa = 0,
      site_m = (\<lambda>i. 0), site_nm = (\<lambda>i. 0), site_len = (\<lambda>i. 0), seq_n = 0\<rparr>"

section \<open>PerformanceCalculator: the symbol-wise Matthews correlation coefficient\<close>

type_synonym basic_measures = "real BasicBooleanMeasures"

text \<open>
  \<^verbatim>\<open>numerator = pp * aa + ap * pa\<close>
  \<^verbatim>\<open>temp = (pp + pa) * (pp + ap) * (aa + ap) * (aa + pa)\<close>
  \<^verbatim>\<open>mcc = numerator / math.sqrt(temp) if temp > 0.0 else float('nan')\<close>
  The float division raises \<open>ZeroDivisionError\<close> on a zero divisor.
\<close>

definition mcc_temp :: "basic_measures \<Rightarrow> real" where
  "mcc_temp bm = (pp bm + pa bm) * (pp bm + ap bm) * (aa bm + ap bm) * (aa bm + pa bm)"

definition float_div :: "real \<Rightarrow> real \<Rightarrow> py_error + pyfloat" where
  "float_div a b = (if b = 0 then Inl ZeroDivisionError else Inr (Num (a / b)))"

definition calc_mcc :: "basic_measures \<Rightarrow> py_error + pyfloat" where
  "calc_mcc bm =
     (let numerator = pp bm * aa bm + ap bm * pa bm;
          temp = mcc_temp bm
      in if temp > 0 then float_div numerator (sqrt temp) else Inr NaN)"

text \<open>The formula of the specification, for comparison with \<open>calc_mcc\<close>.\<close>

definition mcc_spec :: "basic_measures \<Rightarrow> real" where
  "mcc_spec bm = (pp bm * aa bm - ap bm * pa bm) / sqrt (mcc_temp bm)"

definition quarter_measures :: basic_measures where
  "quarter_measures = BasicBooleanMeasures_init\<lparr>pp := 1/4, pa := 1/4, ap := 1/4, aa := 1/4\<rparr>"

definition all_present_measures :: basic_measures where
  "all_present_measures = BasicBooleanMeasures_init\<lparr>pp := 1\<rparr>"

section \<open>Sites and the resolution of overlaps within one annotation\<close>

text \<open>
  A site is the Python list \<open>[begin, end]\<close>, with the site name appended when site
  names are read.  Positions are 1-based and inclusive.
\<close>

record site =
  sbegin :: int
  send :: int
  sname :: "string option"

definition mk_site :: "int \<Rightarrow> int \<Rightarrow> site" where
  "mk_site b e = \<lparr>sbegin = b, send = e, sname = None\<rparr>"

text \<open>
  The three loops of \<open>_resolve_overlaps_within_annotations\<close>, each over one list of
  sites, with the loop variables as arguments.

  \<^verbatim>\<open>last_end = 0\<close>
  \<^verbatim>\<open>for site in sites:\<close>
  \<^verbatim>\<open>    if site[0] > last_end: sites_new.append(site)\<close>
  \<^verbatim>\<open>    last_end = site[1]\<close>
\<close>

fun first_loop :: "site list \<Rightarrow> int \<Rightarrow> site list \<Rightarrow> site list" where
  "first_loop sites_new last_end [] = sites_new"
| "first_loop sites_new last_end (site # sites) =
     first_loop (if sbegin site > last_end then sites_new @ [site] else sites_new)
       (send site) sites"

text \<open>
  \<^verbatim>\<open>next_begin = float('inf')\<close>
  \<^verbatim>\<open>for site in reversed(sites):\<close>
  \<^verbatim>\<open>    if site[1] < next_begin: sites_new.insert(0, site)\<close>
  \<^verbatim>\<open>    next_begin = site[0]\<close>
  \<open>None\<close> stands for the initial infinity.
\<close>

fun last_loop :: "site list \<Rightarrow> int option \<Rightarrow> site list \<Rightarrow> site list" where
  "last_loop sites_new next_begin [] = sites_new"
| "last_loop sites_new next_begin (site # sites) =
     last_loop
       (if (case next_begin of None \<Rightarrow> True | Some nb \<Rightarrow> send site < nb)
        then site # sites_new else sites_new)
       (Some (sbegin site)) sites"

text \<open>
  \<^verbatim>\<open>last_end = 0; new_begin = 0\<close>
  \<^verbatim>\<open>for site in sites:\<close>
  \<^verbatim>\<open>    if site[0] > last_end:\<close>
  \<^verbatim>\<open>        if new_begin > 0: sites_new.append([new_begin, last_end])\<close>
  \<^verbatim>\<open>        new_begin = site[0]\<close>
  \<^verbatim>\<open>    last_end = site[1]\<close>
  \<^verbatim>\<open>if new_begin > 0: sites_new.append([new_begin, last_end])\<close>
\<close>

fun merge_loop :: "site list \<Rightarrow> int \<Rightarrow> int \<Rightarrow> site list \<Rightarrow> site list" where
  "merge_loop sites_new last_end new_begin [] =
     (if new_begin > 0 then sites_new @ [mk_site new_begin last_end] else sites_new)"
| "merge_loop sites_new last_end new_begin (site # sites) =
     (if sbegin site > last_end
      then merge_loop
             (if new_begin > 0 then sites_new @ [mk_site new_begin last_end] else sites_new)
             (send site) (sbegin site) sites
      else merge_loop sites_new (send site) new_begin sites)"

text \<open>
  The body of the loop over the site lists of one annotation: the list that replaces
  \<open>sites\<close> under the given policy.  Policy \<open>all\<close> leaves the list as it is; a
  policy that is none of the four names replaces it by the empty \<open>sites_new\<close>.
\<close>

definition resolve_overlaps :: "string \<Rightarrow> site list \<Rightarrow> site list" where
  "resolve_overlaps policy sites =
     (if policy = ''all'' then sites
      else if policy = ''first'' then first_loop [] 0 sites
      else if policy = ''last'' then last_loop [] None (rev sites)
      else if policy = ''merge'' then merge_loop [] 0 0 sites
      else [])"

text \<open>The positions covered by a list of sites.\<close>

definition covered :: "site list \<Rightarrow> int set" where
  "covered sites = (\<Union>s \<in> set sites. {sbegin s .. send s})"

text \<open>
  The rule for \<open>first\<close> in the words of the specification: a site is kept if and
  only if its begin exceeds the end of the previously kept site (0 before any site is
  kept, as in the source).
\<close>

fun first_spec :: "int \<Rightarrow> site list \<Rightarrow> site list" where
  "first_spec kept_end [] = []"
| "first_spec kept_end (site # sites) =
     (if sbegin site > kept_end then site # first_spec (send site) sites
      else first_spec kept_end sites)"

text \<open>
  The end position of the site just before position \<open>k\<close> of the list (0 for the
  first site): the value of \<open>last_end\<close> when the \<open>first\<close> loop reaches site \<open>k\<close>.
\<close>

definition previous_end :: "site list \<Rightarrow> nat \<Rightarrow> int" where
  "previous_end sites k = (if k = 0 then 0 else send (sites ! (k - 1)))"

section \<open>Options, sequences and output files\<close>

text \<open>
  The command line options the calculators read.  \<open>group_map\<close> is a file path in the
  source; only its truth value is used here.
\<close>

record options =
  predictor_nature :: string
  overlap_apply :: string
  overlap_symbols :: int
  overlap_part :: real
  gross :: bool
  site_names :: bool
  site_difference :: string
  group_map :: bool
  enrichment_count :: int

text \<open>
  \<open>CurrentSequence(GID, SID, seq_length, sites)\<close>, where \<open>sites\<close> is the list
  \<open>[None, sites of annotation 1, sites of annotation 2]\<close>.  The length is a positive
  integer in the sequence length database.
\<close>

record CurrentSequence =
  GID :: string
  SID :: string
  seq_length :: nat
  sites1 :: "site list"
  sites2 :: "site list"

definition sites :: "CurrentSequence \<Rightarrow> nat \<Rightarrow> site list" where
  "sites cs i = (if i = 1 then sites1 cs else sites2 cs)"

text \<open>
  What the calculators write.  A line is represented by the arguments of its format
  string: the texts of \<open>global_state\<close> (annotation names, indentation) are fixed
  strings of the run and stand behind the annotation numbers.
\<close>

datatype field = FStr string | FInt int | FAnno nat

datatype line =
    OutSite string string int int
  | SymbolInfo int bool string "nat option" string
  | GrossInfo int nat nat
  | EnrichedInfo int string
  | SiteOverlap int int "string option" nat int int "string option" nat int int int
  | SiteNoOverlap int int "string option" nat
  | SitePatchedOverlap int int nat int int nat
  | SitePatchedNoOverlap int int nat
  | SiteRow "field list"
  | NoSites nat
  | SitesTotal nat int int bool
  | SitesMatched int nat nat
  | SitesUnmatched int nat nat

text \<open>A file handler is \<open>None\<close> or an open file, which is the list of lines written.\<close>

type_synonym file_handler = "line list option"

text \<open>Sequencing of computations that may raise, and \<open>for x in xs: body\<close>.\<close>

definition bind :: "py_error + 'a \<Rightarrow> ('a \<Rightarrow> py_error + 'b) \<Rightarrow> py_error + 'b" where
  "bind m f = (case m of Inl e \<Rightarrow> Inl e | Inr x \<Rightarrow> f x)"

fun for_each :: "('s \<Rightarrow> 'a \<Rightarrow> py_error + 's) \<Rightarrow> 'a list \<Rightarrow> 's \<Rightarrow> py_error + 's" where
  "for_each body [] s = Inr s"
| "for_each body (x # xs) s = bind (body s x) (for_each body xs)"

text \<open>\<open>range(a, b)\<close>, and the slice \<open>xs[start : stop]\<close> of a list or array.\<close>

definition py_range :: "int \<Rightarrow> int \<Rightarrow> int list" where
  "py_range a b = [a .. b - 1]"

definition slice_bound :: "nat \<Rightarrow> int \<Rightarrow> nat" where
  "slice_bound n i = (if i < 0 then nat (max (i + int n) 0) else min (nat i) n)"

definition py_slice :: "'a list \<Rightarrow> int \<Rightarrow> int \<Rightarrow> 'a list" where
  "py_slice xs start stop =
     (let a = slice_bound (length xs) start; b = slice_bound (length xs) stop
      in take (b - a) (drop a xs))"

text \<open>
  Indexing a one-dimensional numpy array of length \<open>n\<close> with an integer: a negative
  index counts from the end, an index outside \<open>[-n, n)\<close> raises \<open>IndexError\<close>.
\<close>

definition np_index :: "nat \<Rightarrow> int \<Rightarrow> py_error + nat" where
  "np_index n idx =
     (if 0 \<le> idx \<and> idx < int n then Inr (nat idx)
      else if - int n \<le> idx \<and> idx < 0 then Inr (nat (int n + idx))
      else Inl IndexError)"

definition np_getitem :: "int list \<Rightarrow> int \<Rightarrow> py_error + int" where
  "np_getitem a idx = bind (np_index (length a) idx) (\<lambda>k. Inr (a ! k))"

text \<open>\<open>np.sum(a == v)\<close>: the number of elements equal to \<open>v\<close>.\<close>

definition count_eq :: "int list \<Rightarrow> int \<Rightarrow> int" where
  "count_eq a v = int (length (filter (\<lambda>x. x = v) a))"

section \<open>BasicBooleanSequenceCalculator\<close>

text \<open>
  The object: \<open>self.opt\<close>, \<open>self.current_seq\<close>, the array \<open>self.seq\<close> (dtype \<open>i1\<close>;
  only the constants 0 to 3 are ever stored) and \<open>self.results\<close>.
\<close>

record calculator =
  opt :: options
  current_seq :: CurrentSequence
  seq :: "int list"
  results :: "int BasicBooleanMeasures"

text \<open>
  \<open>_classify_symbols\<close>: the body \<open>self.seq[idx] = 1\<close> of the first loop, the body of
  the second loop, and the two loops over the sites.
\<close>

definition mark_first :: "int list \<Rightarrow> int \<Rightarrow> py_error + int list" where
  "mark_first a idx = bind (np_index (length a) idx) (\<lambda>k. Inr (a[k := 1]))"

definition mark_second :: "int list \<Rightarrow> int \<Rightarrow> py_error + int list" where
  "mark_second a idx =
     bind (np_index (length a) idx)
       (\<lambda>k. Inr (if a ! k = 0 then a[k := 2] else if a ! k = 1 then a[k := 3] else a))"

definition classify_symbols :: "CurrentSequence \<Rightarrow> int list \<Rightarrow> py_error + int list" where
  "classify_symbols cs a =
     bind (for_each (\<lambda>a site. for_each mark_first (py_range (sbegin site - 1) (send site)) a)
             (sites cs 1) a)
       (for_each (\<lambda>a site. for_each mark_second (py_range (sbegin site - 1) (send site)) a)
             (sites cs 2))"

text \<open>
  \<open>__init__\<close>: \<open>self.seq = np.zeros(shape = current_seq.length, dtype = 'i1')\<close>,
  \<open>self.results = BasicBooleanMeasures()\<close>, then \<open>self._classify_symbols()\<close>.
\<close>

definition BasicBooleanSequenceCalculator_init ::
    "options \<Rightarrow> CurrentSequence \<Rightarrow> py_error + calculator" where
  "BasicBooleanSequenceCalculator_init op cs =
     bind (classify_symbols cs (replicate (seq_length cs) 0))
       (\<lambda>a. Inr \<lparr>opt = op, current_seq = cs, seq = a, results = BasicBooleanMeasures_init\<rparr>)"

text \<open>The membership tests \<open>_in_union\<close>, \<open>_in_intersection\<close>, \<open>_in_complement1\<close>,
  \<open>_in_complement2\<close>, and the dispatch \<open>getattr(self, '_in_' + type_)(idx)\<close>; the
  tests \<open>_in_re1\<close> and \<open>_in_re2\<close> are the stubs of the abstract class.\<close>

definition in_union :: "calculator \<Rightarrow> int \<Rightarrow> py_error + bool" where
  "in_union c idx = bind (np_getitem (seq c) idx) (\<lambda>v. Inr (v \<ge> 1))"

definition in_intersection :: "calculator \<Rightarrow> int \<Rightarrow> py_error + bool" where
  "in_intersection c idx = bind (np_getitem (seq c) idx) (\<lambda>v. Inr (v = 3))"

definition in_complement1 :: "calculator \<Rightarrow> int \<Rightarrow> py_error + bool" where
  "in_complement1 c idx = bind (np_getitem (seq c) idx) (\<lambda>v. Inr (v = 2))"

definition in_complement2 :: "calculator \<Rightarrow> int \<Rightarrow> py_error + bool" where
  "in_complement2 c idx = bind (np_getitem (seq c) idx) (\<lambda>v. Inr (v = 1))"

definition in_type :: "string \<Rightarrow> calculator \<Rightarrow> int \<Rightarrow> py_error + bool" where
  "in_type type c idx =
     (if type = ''union'' then in_union c idx
      else if type = ''intersection'' then in_intersection c idx
      else if type = ''complement1'' then in_complement1 c idx
      else if type = ''complement2'' then in_complement2 c idx
      else if type = ''re1'' then Inl (NotImplementedError ''_in_re1'')
      else if type = ''re2'' then Inl (NotImplementedError ''_in_re2'')
      else Inl (AttributeError (''_in_'' @ type)))"

text \<open>
  \<open>_write_site\<close> writes group, SID, \<open>begin_idx + 1\<close> and \<open>idx\<close>; \<open>begin_idx\<close> is
  \<open>None\<close> until a run has been opened.
\<close>

definition write_site ::
    "CurrentSequence \<Rightarrow> line list \<Rightarrow> int option \<Rightarrow> int \<Rightarrow> py_error + line list" where
  "write_site cs fh begin_idx idx =
     (case begin_idx of
        None \<Rightarrow> Inl TypeError
      | Some b \<Rightarrow> Inr (fh @ [OutSite (GID cs) (SID cs) (b + 1) idx]))"

text \<open>
  \<open>write_to_files\<close>, for one output type: the body of the loop over the positions,
  on the state \<open>(in_site, begin_idx, file)\<close>, and the scan with the closing of a run
  that reaches the end of the sequence.
\<close>

definition scan_step ::
    "string \<Rightarrow> calculator \<Rightarrow> bool \<times> int option \<times> line list \<Rightarrow> int
       \<Rightarrow> py_error + bool \<times> int option \<times> line list" where
  "scan_step type c st idx =
     (case st of (in_site, begin_idx, fh) \<Rightarrow>
        bind (in_type type c idx)
          (\<lambda>inside.
             if inside then (if \<not> in_site then Inr (True, Some idx, fh) else Inr st)
             else if in_site
               then bind (write_site (current_seq c) fh begin_idx idx)
                      (\<lambda>fh'. Inr (False, begin_idx, fh'))
             else Inr st))"

definition write_runs :: "string \<Rightarrow> calculator \<Rightarrow> line list \<Rightarrow> py_error + line list" where
  "write_runs type c fh =
     bind (for_each (scan_step type c) (py_range 0 (int (seq_length (current_seq c))))
             (False, None, fh))
       (\<lambda>st. case st of (in_site, begin_idx, fh') \<Rightarrow>
          if in_site
          then write_site (current_seq c) fh' begin_idx (int (seq_length (current_seq c)))
          else Inr fh')"

text \<open>
  \<open>write_to_files(file_handlers)\<close>: \<open>file_handlers\<close> is given as the list of its
  attributes in the order of \<open>FileHandlers.output_file_types\<close>.
\<close>

definition write_one_file ::
    "calculator \<Rightarrow> string \<times> file_handler \<Rightarrow> py_error + string \<times> file_handler" where
  "write_one_file c entry =
     (case entry of (type, file_handler) \<Rightarrow>
        (case file_handler of
           None \<Rightarrow> Inr entry
         | Some fh \<Rightarrow>
             if type = ''detailed'' \<or> type = ''site'' then Inr entry
             else bind (write_runs type c fh) (\<lambda>fh'. Inr (type, Some fh'))))"

fun write_to_files ::
    "calculator \<Rightarrow> (string \<times> file_handler) list \<Rightarrow> py_error + (string \<times> file_handler) list" where
  "write_to_files c [] = Inr []"
| "write_to_files c (entry # entries) =
     bind (write_one_file c entry)
       (\<lambda>entry'. bind (write_to_files c entries) (\<lambda>entries'. Inr (entry' # entries')))"

subsection \<open>Residue-wise measures\<close>

text \<open>\<open>if file_handler: file_handler.write(...)\<close>, the line being computed by \<open>w\<close>.\<close>

definition if_handler ::
    "file_handler \<Rightarrow> (line list \<Rightarrow> py_error + line list) \<Rightarrow> py_error + file_handler" where
  "if_handler file_handler w =
     (case file_handler of
        None \<Rightarrow> Inr None
      | Some fh \<Rightarrow> bind (w fh) (\<lambda>fh'. Inr (Some fh')))"

text \<open>\<open>getattr(self.results, type_)\<close> for the symbol-wise counts.\<close>

definition getattr_results :: "int BasicBooleanMeasures \<Rightarrow> string \<Rightarrow> py_error + int" where
  "getattr_results r type =
     (if type = ''pp'' then Inr (pp r)
      else if type = ''pa'' then Inr (pa r)
      else if type = ''ap'' then Inr (ap r)
      else if type = ''aa'' then Inr (aa r)
      else Inl (AttributeError type))"

text \<open>
  \<open>_write_measure_info_to_detailed_file(type_, description, detailed_file_h)\<close>; the
  description is a text followed, for \<open>pa\<close> and \<open>ap\<close>, by the name of an annotation.
\<close>

definition write_measure_info ::
    "options \<Rightarrow> int BasicBooleanMeasures \<Rightarrow> string \<Rightarrow> string \<Rightarrow> nat option \<Rightarrow> line list
       \<Rightarrow> py_error + line list" where
  "write_measure_info op r type description anno fh =
     bind (getattr_results r type)
       (\<lambda>symbols_n.
          Inr (fh @ [SymbolInfo symbols_n (gross op \<and> type \<noteq> ''aa'') description anno type]))"

text \<open>
  The gross branch, for one site of annotation \<open>i\<close>:
  \<^verbatim>\<open>matched_symbols_n = np.sum(self.seq[site[0] - 1: site[1]] == 3)\<close>
  \<^verbatim>\<open>site_length = site[1] - site[0] + 1\<close>
  \<^verbatim>\<open>unmatched_symbols_n = site_length - matched_symbols_n\<close>
  \<^verbatim>\<open>self.results.pp_[i] += matched_symbols_n\<close>
  and \<open>pa\<close> (for \<open>i = 1\<close>) or \<open>ap\<close> is increased by \<open>unmatched_symbols_n\<close>.
\<close>

definition gross_site ::
    "int list \<Rightarrow> nat \<Rightarrow> int BasicBooleanMeasures \<Rightarrow> site \<Rightarrow> int BasicBooleanMeasures" where
  "gross_site a i r site =
     (let matched_symbols_n = count_eq (py_slice a (sbegin site - 1) (send site)) 3;
          site_length = send site - sbegin site + 1;
          unmatched_symbols_n = site_length - matched_symbols_n;
          r' = r\<lparr>pp_of := (pp_of r)(i := pp_of r i + matched_symbols_n)\<rparr>
      in if i = 1 then r'\<lparr>pa := pa r' + unmatched_symbols_n\<rparr>
         else r'\<lparr>ap := ap r' + unmatched_symbols_n\<rparr>)"

definition gross_annotation ::
    "calculator \<Rightarrow> nat \<Rightarrow> int BasicBooleanMeasures \<times> file_handler
       \<Rightarrow> py_error + int BasicBooleanMeasures \<times> file_handler" where
  "gross_annotation c i st =
     (case st of (r, detailed_file_h) \<Rightarrow>
        let j = 3 - i;
            r' = foldl (gross_site (seq c) i) r (sites (current_seq c) i)
        in bind (if_handler detailed_file_h (\<lambda>fh. Inr (fh @ [GrossInfo (pp_of r' i) i j])))
             (\<lambda>dh. Inr (r', dh)))"

definition calculate_residue_wise ::
    "calculator \<Rightarrow> file_handler \<Rightarrow> py_error + calculator \<times> file_handler" where
  "calculate_residue_wise c detailed_file_h =
     bind
       (if gross (opt c)
        then bind (gross_annotation c 1 ((results c)\<lparr>pa := 0, ap := 0\<rparr>, detailed_file_h))
               (gross_annotation c 2)
        else
          (let r1 = (results c)\<lparr>pp := count_eq (seq c) 3\<rparr>;
               r2 = r1\<lparr>pp_of := (pp_of r1)(1 := pp r1)\<rparr>;
               r3 = r2\<lparr>pp_of := (pp_of r2)(2 := pp r2)\<rparr>
           in bind (if_handler detailed_file_h
                     (write_measure_info (opt c) r3 ''pp'' ''present in both annotations'' None))
                (\<lambda>dh. Inr (r3\<lparr>pa := count_eq (seq c) 1, ap := count_eq (seq c) 2\<rparr>, dh))))
       (\<lambda>st. case st of (r, dh) \<Rightarrow>
          let r' = r\<lparr>aa := count_eq (seq c) 0\<rparr>
          in bind (if_handler dh
                    (write_measure_info (opt c) r' ''pa'' ''present exclusively in the '' (Some 1)))
               (\<lambda>dh1. bind (if_handler dh1
                    (write_measure_info (opt c) r' ''ap'' ''present exclusively in the '' (Some 2)))
               (\<lambda>dh2. bind (if_handler dh2
                    (write_measure_info (opt c) r' ''aa'' ''absent in both annotations'' None))
               (\<lambda>dh3. Inr (c\<lparr>results := r'\<rparr>, dh3)))))"

subsection \<open>Matching of sites\<close>

text \<open>
  \<open>_get_overlapped_symbols(site, site_, annotation_idx)\<close>:
  \<^verbatim>\<open>if self.opt.predictor_nature != 'neutral':\<close>
  \<^verbatim>\<open>    if (self.opt.predictor_nature == 'lagging') == (annotation_idx == 1):\<close>
  \<^verbatim>\<open>        if site_[0] < site[0]: return 0\<close>
  \<^verbatim>\<open>    elif site_[0] > site[0]: return 0\<close>
  \<^verbatim>\<open>return max(min(site[1] - site_[0], site_[1] - site[0], site[1] - site[0], site_[1] - site_[0]) + 1, 0)\<close>
\<close>

definition get_overlapped_symbols :: "options \<Rightarrow> site \<Rightarrow> site \<Rightarrow> nat \<Rightarrow> int" where
  "get_overlapped_symbols op site site' annotation_idx =
     (let shared =
            max (min (min (min (send site - sbegin site') (send site' - sbegin site))
                        (send site - sbegin site))
                   (send site' - sbegin site') + 1) 0
      in if predictor_nature op \<noteq> ''neutral''
         then (if (predictor_nature op = ''lagging'') = (annotation_idx = 1)
               then (if sbegin site' < sbegin site then 0 else shared)
               else if sbegin site' > sbegin site then 0 else shared)
         else shared)"

text \<open>
  \<open>_get_site_length(site, site_)\<close>; the method returns \<open>None\<close> when \<open>overlap_apply\<close>
  is none of the four names.
\<close>

definition get_site_length :: "options \<Rightarrow> site \<Rightarrow> site \<Rightarrow> int option" where
  "get_site_length op site site' =
     (if overlap_apply op = ''shortest''
      then Some (min (send site - sbegin site) (send site' - sbegin site') + 1)
      else if overlap_apply op = ''longest''
      then Some (max (send site - sbegin site) (send site' - sbegin site') + 1)
      else if overlap_apply op = ''current'' \<or> overlap_apply op = ''patched''
      then Some (send site - sbegin site + 1)
      else None)"

text \<open>
  The number of overlapped symbols is a Python \<open>int\<close> in the pairwise matching and a
  numpy integer (the result of \<open>np.sum\<close>) with the patched policy.  Dividing a Python
  \<open>int\<close> by zero raises; dividing a numpy integer by zero gives an infinity or a
  not-a-number.
\<close>

datatype pynum = PyInt int | NpInt int

fun num_val :: "pynum \<Rightarrow> int" where
  "num_val (PyInt a) = a"
| "num_val (NpInt a) = a"

text \<open>
  \<open>_check_overlap_sufficiency(overlapped_symbols, site_length)\<close>:
  \<^verbatim>\<open>(overlapped_symbols >= self.opt.overlap_symbols) and (overlapped_symbols / site_length >= self.opt.overlap_part)\<close>
  The quotient is evaluated only when the first comparison holds.  With a zero length, a
  numpy quotient is \<open>inf\<close> for a positive count, which is at least \<open>overlap_part\<close>,
  and \<open>nan\<close> or \<open>-inf\<close> otherwise, which is not.  The quotient and the fraction
  \<open>overlap_part\<close> are idealised as reals.
\<close>

definition check_overlap_sufficiency :: "options \<Rightarrow> pynum \<Rightarrow> int option \<Rightarrow> py_error + bool" where
  "check_overlap_sufficiency op overlapped_symbols site_length =
     (if num_val overlapped_symbols \<ge> overlap_symbols op
      then (case site_length of
              None \<Rightarrow> Inl TypeError
            | Some l \<Rightarrow>
                if l = 0
                then (case overlapped_symbols of
                        PyInt a \<Rightarrow> Inl ZeroDivisionError
                      | NpInt a \<Rightarrow> Inr (a > 0))
                else Inr (real_of_int (num_val overlapped_symbols) / real_of_int l
                            \<ge> overlap_part op))
      else Inr False)"

text \<open>
  The search for a partner of \<open>site\<close> among the sites of the other annotation:
  \<^verbatim>\<open>for site_ in self.current_seq.sites[j]:\<close>
  \<^verbatim>\<open>    if site_[0] > site[1]: break\<close>
  \<^verbatim>\<open>    overlapped_symbols = self._get_overlapped_symbols(site, site_, i)\<close>
  \<^verbatim>\<open>    site_length_effective = self._get_site_length(site, site_)\<close>
  \<^verbatim>\<open>    if self._check_overlap_sufficiency(overlapped_symbols, site_length_effective):\<close>
  \<^verbatim>\<open>        self.results.site_m[i] += 1; found_match = True; break\<close>
  The result is the partner \<open>site_\<close> with \<open>overlapped_symbols\<close> when a match is found.
\<close>

fun find_match :: "options \<Rightarrow> site \<Rightarrow> nat \<Rightarrow> site list \<Rightarrow> py_error + (site \<times> int) option" where
  "find_match op site i [] = Inr None"
| "find_match op site i (site' # rest) =
     (if sbegin site' > send site then Inr None
      else
        let overlapped_symbols = get_overlapped_symbols op site site' i;
            site_length_effective = get_site_length op site site'
        in bind (check_overlap_sufficiency op (PyInt overlapped_symbols) site_length_effective)
             (\<lambda>sufficient.
                if sufficient then Inr (Some (site', overlapped_symbols))
                else find_match op site i rest))"

subsection \<open>Site-wise measures\<close>

text \<open>
  \<open>round(x)\<close> rounds to the nearest integer and a tie to the even one.
  \<open>round(100 * n / d)\<close> with Python integers raises on \<open>d = 0\<close>; with a numpy
  count \<open>n\<close> the quotient is then not-a-number or infinite, and \<open>round\<close> raises.
\<close>

definition py_round :: "real \<Rightarrow> int" where
  "py_round x =
     (let f = \<lfloor>x\<rfloor>; d = x - of_int f
      in if d < 1/2 then f else if d > 1/2 then f + 1 else if even f then f else f + 1)"

definition round_perc :: "pynum \<Rightarrow> int \<Rightarrow> py_error + int" where
  "round_perc n d =
     (if d = 0
      then (case n of
              PyInt a \<Rightarrow> Inl ZeroDivisionError
            | NpInt a \<Rightarrow> if a = 0 then Inl ValueError else Inl OverflowError)
      else Inr (py_round (real_of_int (100 * num_val n) / real_of_int d)))"

text \<open>\<open>site[2]\<close> when site names are used, for the messages.\<close>

definition site_name_addition :: "options \<Rightarrow> site \<Rightarrow> py_error + string option" where
  "site_name_addition op site =
     (if site_names op
      then (case sname site of None \<Rightarrow> Inl IndexError | Some n \<Rightarrow> Inr (Some n))
      else Inr None)"

text \<open>
  The statistics of a site for the output files, with pairwise matching:
  \<open>(overlapped_symbols, length_perc_1, length_perc_2)\<close>.
\<close>

definition match_stats :: "site \<Rightarrow> (site \<times> int) option \<Rightarrow> py_error + int \<times> int \<times> int" where
  "match_stats site m =
     (case m of
        Some (site', overlapped_symbols) \<Rightarrow>
          bind (round_perc (PyInt overlapped_symbols) (send site - sbegin site + 1))
            (\<lambda>length_perc_1.
               bind (round_perc (PyInt overlapped_symbols) (send site' - sbegin site' + 1))
                 (\<lambda>length_perc_2. Inr (overlapped_symbols, length_perc_1, length_perc_2)))
      | None \<Rightarrow> Inr (0, 0, 0))"

text \<open>The line of the detailed file for one site, with pairwise matching.\<close>

definition detailed_site_line ::
    "options \<Rightarrow> nat \<Rightarrow> nat \<Rightarrow> site \<Rightarrow> (site \<times> int) option \<Rightarrow> int \<times> int \<times> int \<Rightarrow> line list
       \<Rightarrow> py_error + line list" where
  "detailed_site_line op i j site m stats fh =
     bind (site_name_addition op site)
       (\<lambda>name.
          case m of
            Some (site', ov) \<Rightarrow>
              bind (site_name_addition op site')
                (\<lambda>name'.
                   Inr (fh @ [SiteOverlap (sbegin site) (send site) name i
                                (sbegin site') (send site') name' j
                                (fst stats) (fst (snd stats)) (snd (snd stats))]))
          | None \<Rightarrow> Inr (fh @ [SiteNoOverlap (sbegin site) (send site) name i]))"

text \<open>
  The row of the site statistics file for one site, with pairwise matching; the two
  \<open>continue\<close> statements leave the file as it is.
\<close>

definition site_row ::
    "options \<Rightarrow> CurrentSequence \<Rightarrow> nat \<Rightarrow> site \<Rightarrow> (site \<times> int) option \<Rightarrow> int \<times> int \<times> int
       \<Rightarrow> line list \<Rightarrow> py_error + line list" where
  "site_row op cs i site m stats fh =
     (let overlapped_symbols = fst stats;
          length_perc_1 = fst (snd stats);
          length_perc_2 = snd (snd stats)
      in if site_difference op = ''unmatched'' \<and> m \<noteq> None then Inr fh
         else if site_difference op \<noteq> ''unmatched'' \<and> site_difference op = ''discrepant''
                 \<and> length_perc_1 = 100 \<and> length_perc_2 = 100 then Inr fh
         else
           bind (site_name_addition op site)
             (\<lambda>name.
                bind (case m of
                        Some (site', ov) \<Rightarrow> site_name_addition op site'
                      | None \<Rightarrow> Inr (if site_names op then Some [] else None))
                  (\<lambda>name'.
                     Inr (fh @ [SiteRow
                       ((if group_map op then [FStr (GID cs)] else [])
                        @ [FStr (SID cs), FAnno i, FInt (sbegin site), FInt (send site)]
                        @ (case name of Some n \<Rightarrow> [FStr n] | None \<Rightarrow> [])
                        @ [FInt overlapped_symbols, FInt length_perc_1, FInt length_perc_2]
                        @ (case m of
                             Some (site', ov) \<Rightarrow> [FInt (sbegin site'), FInt (send site')]
                           | None \<Rightarrow> [FStr ''-'', FStr ''-''])
                        @ (case name' of Some n \<Rightarrow> [FStr n] | None \<Rightarrow> []))]))))"

text \<open>
  The body of the loop over the sites of annotation \<open>i\<close> for the policies
  \<open>shortest\<close>, \<open>longest\<close> and \<open>current\<close>, on the state
  \<open>(results, detailed file, site file, last_end)\<close>.
\<close>

definition site_step ::
    "options \<Rightarrow> CurrentSequence \<Rightarrow> nat
       \<Rightarrow> int BasicBooleanMeasures \<times> file_handler \<times> file_handler \<times> int \<Rightarrow> site
       \<Rightarrow> py_error + int BasicBooleanMeasures \<times> file_handler \<times> file_handler \<times> int" where
  "site_step op cs i st site =
     (case st of (r, detailed_file_h, site_file_h, last_end) \<Rightarrow>
        let j = 3 - i;
            site_effective_begin =
              (if gross op then sbegin site else max (sbegin site) (last_end + 1));
            r1 = r\<lparr>site_len := (site_len r)(i := site_len r i
                                                  + (send site - site_effective_begin + 1))\<rparr>
        in bind (find_match op site i (sites cs j))
             (\<lambda>m.
                let r2 = (case m of
                            Some found \<Rightarrow> r1\<lparr>site_m := (site_m r1)(i := site_m r1 i + 1)\<rparr>
                          | None \<Rightarrow> r1\<lparr>site_nm := (site_nm r1)(i := site_nm r1 i + 1)\<rparr>)
                in if detailed_file_h \<noteq> None \<or> site_file_h \<noteq> None
                   then bind (match_stats site m)
                          (\<lambda>stats.
                             bind (if_handler detailed_file_h
                                     (detailed_site_line op i j site m stats))
                               (\<lambda>dh. bind (if_handler site_file_h (site_row op cs i site m stats))
                                 (\<lambda>sh. Inr (r2, dh, sh, send site))))
                   else Inr (r2, detailed_file_h, site_file_h, send site)))"

definition annotation_sites ::
    "options \<Rightarrow> CurrentSequence \<Rightarrow> nat
       \<Rightarrow> int BasicBooleanMeasures \<times> file_handler \<times> file_handler
       \<Rightarrow> py_error + int BasicBooleanMeasures \<times> file_handler \<times> file_handler" where
  "annotation_sites op cs i st =
     (case st of (r, detailed_file_h, site_file_h) \<Rightarrow>
        bind (for_each (site_step op cs i) (sites cs i) (r, detailed_file_h, site_file_h, 0))
          (\<lambda>st'. case st' of (r', dh, sh, last_end) \<Rightarrow> Inr (r', dh, sh)))"

text \<open>
  The body of the loop over the sites of annotation \<open>i\<close> for the policy \<open>patched\<close>.
  This branch of the method assigns neither \<open>j\<close> nor \<open>overlapped_symbols\<close>, which
  are local variables of the method: reading them raises \<open>UnboundLocalError\<close>.
\<close>

definition patched_site_step ::
    "calculator \<Rightarrow> nat \<Rightarrow> int BasicBooleanMeasures \<times> file_handler \<times> file_handler \<Rightarrow> site
       \<Rightarrow> py_error + int BasicBooleanMeasures \<times> file_handler \<times> file_handler" where
  "patched_site_step c i st site =
     (case st of (r, detailed_file_h, site_file_h) \<Rightarrow>
        let matched_symbols = count_eq (py_slice (seq c) (sbegin site - 1) (send site)) 3;
            site_length = send site - sbegin site + 1
        in bind (check_overlap_sufficiency (opt c) (NpInt matched_symbols) (Some site_length))
             (\<lambda>found_match.
                let r' = (if found_match
                          then r\<lparr>site_m := (site_m r)(i := site_m r i + 1)\<rparr>
                          else r\<lparr>site_nm := (site_nm r)(i := site_nm r i + 1)\<rparr>)
                in bind
                     (if detailed_file_h \<noteq> None \<or> site_file_h \<noteq> None
                      then bind (if found_match
                                 then round_perc (NpInt matched_symbols) site_length
                                 else Inr 0)
                             (\<lambda>length_perc.
                                if_handler detailed_file_h
                                  (\<lambda>fh. if found_match then Inl (UnboundLocalError ''j'')
                                         else Inr (fh @ [SitePatchedNoOverlap (sbegin site)
                                                           (send site) i])))
                      else Inr detailed_file_h)
                     (\<lambda>dh.
                        bind (if_handler site_file_h
                                (\<lambda>fh. if found_match \<and> site_difference (opt c) = ''unmatched''
                                       then Inr fh
                                       else bind (site_name_addition (opt c) site)
                                              (\<lambda>name. Inl (UnboundLocalError
                                                              ''overlapped_symbols''))))
                          (\<lambda>sh. Inr (r', dh, sh)))))"

text \<open>
  The closing loop over the two annotations, writing the totals to the detailed file.
  \<open>j\<close> is the value the variable has after the branch taken above: 1 after the
  pairwise branch, unbound (\<open>None\<close>) after the patched one.
\<close>

definition summary_step ::
    "options \<Rightarrow> nat option \<Rightarrow> int BasicBooleanMeasures \<Rightarrow> file_handler \<Rightarrow> nat
       \<Rightarrow> py_error + file_handler" where
  "summary_step op j r detailed_file_h i =
     (let sites_n = site_m r i + site_nm r i
      in if sites_n = 0
         then if_handler detailed_file_h (\<lambda>fh. Inr (fh @ [NoSites i]))
         else bind (if_handler detailed_file_h
                      (\<lambda>fh. Inr (fh @ [SitesTotal i sites_n (site_len r i) (gross op)])))
                (\<lambda>dh. if_handler dh
                   (\<lambda>fh. case j of
                            None \<Rightarrow> Inl (UnboundLocalError ''j'')
                          | Some j' \<Rightarrow> Inr (fh @ [SitesMatched (site_m r i) i j',
                                                   SitesUnmatched (site_nm r i) i j']))))"

definition calculate_site_wise ::
    "calculator \<Rightarrow> file_handler \<Rightarrow> file_handler
       \<Rightarrow> py_error + calculator \<times> file_handler \<times> file_handler" where
  "calculate_site_wise c detailed_file_h site_file_h =
     bind
       (if overlap_apply (opt c) = ''shortest'' \<or> overlap_apply (opt c) = ''longest''
           \<or> overlap_apply (opt c) = ''current''
        then bind (annotation_sites (opt c) (current_seq c) 1
                     (results c, detailed_file_h, site_file_h))
               (\<lambda>st. bind (annotation_sites (opt c) (current_seq c) 2 st)
                  (\<lambda>st'. Inr (st', Some 1)))
        else if overlap_apply (opt c) = ''patched''
        then bind (for_each (patched_site_step c 1) (sites (current_seq c) 1)
                     (results c, detailed_file_h, site_file_h))
               (\<lambda>st. bind (for_each (patched_site_step c 2) (sites (current_seq c) 2) st)
                  (\<lambda>st'. Inr (st', None)))
        else Inl (SystemExit ''Unknown overlap apply method''))
       (\<lambda>res. case res of ((r, dh, sh), j) \<Rightarrow>
          bind (for_each (summary_step (opt c) j r) [1, 2] dh)
            (\<lambda>dh'. Inr (c\<lparr>results := r\<rparr>, dh', sh)))"

section \<open>BasicEnrichmentSequenceCalculator\<close>

text \<open>
  \<open>BasicEnrichmentMeasures\<close>: \<open>e[i]\<close>, \<open>re[i]\<close> (indexed by the annotation number),
  \<open>ee\<close>, \<open>ne\<close> and \<open>nre\<close>.

  Modelled from the spec: the class is defined in \<open>slalom_structures\<close>; as for the
  Boolean measures, every count of a new record is zero.
\<close>

record BasicEnrichmentMeasures =
  e_of :: "nat \<Rightarrow> int"
  re_of :: "nat \<Rightarrow> int"
  ee :: int
  ne :: int
  nre :: int

definition BasicEnrichmentMeasures_init :: BasicEnrichmentMeasures where
  "BasicEnrichmentMeasures_init =
     \<lparr>e_of = (\<lambda>i. 0), re_of = (\<lambda>i. 0), ee = 0, ne = 0, nre = 0\<rparr>"

text \<open>
  The calculator object is its attribute dictionary: reading an attribute that no
  assignment has created raises \<open>AttributeError\<close>.  \<open>VCounts a1 a2\<close> is the list
  \<open>[None, a1, a2]\<close> of the two arrays of occurrence counts.  The arrays have the integer
  width that \<open>_estimate_required_precison\<close> returns, which no count can exceed; their
  elements are kept as unbounded integers.
\<close>

datatype pyval =
    VNone
  | VGlobalState
  | VOptions options
  | VSequence CurrentSequence
  | VInt int
  | VCounts "int list" "int list"
  | VEnrichment BasicEnrichmentMeasures

type_synonym py_object = "string \<Rightarrow> pyval option"

definition getattr :: "py_object \<Rightarrow> string \<Rightarrow> py_error + pyval" where
  "getattr obj name = (case obj name of None \<Rightarrow> Inl (AttributeError name) | Some v \<Rightarrow> Inr v)"

definition get_int :: "py_object \<Rightarrow> string \<Rightarrow> py_error + int" where
  "get_int obj name =
     bind (getattr obj name) (\<lambda>v. case v of VInt n \<Rightarrow> Inr n | _ \<Rightarrow> Inl TypeError)"

definition get_counts :: "py_object \<Rightarrow> string \<Rightarrow> py_error + int list \<times> int list" where
  "get_counts obj name =
     bind (getattr obj name) (\<lambda>v. case v of VCounts a1 a2 \<Rightarrow> Inr (a1, a2) | _ \<Rightarrow> Inl TypeError)"

definition get_measures :: "py_object \<Rightarrow> string \<Rightarrow> py_error + BasicEnrichmentMeasures" where
  "get_measures obj name =
     bind (getattr obj name) (\<lambda>v. case v of VEnrichment r \<Rightarrow> Inr r | _ \<Rightarrow> Inl TypeError)"

text \<open>
  \<open>_estimate_required_precison\<close>:
  \<^verbatim>\<open>count_limit = max(len(sites[1]), len(sites[2])) + 1\<close>
  \<^verbatim>\<open>bytes_required = math.ceil((math.ceil(math.log(count_limit, 2)) + 1) / 8)\<close>
  \<^verbatim>\<open>if bytes_required > 8: error(...)\<close>
  \<^verbatim>\<open>bytes_required = [1, 1, 2, 4, 4, 8, 8, 8, 8][bytes_required]\<close>
  with the logarithm taken exactly: \<open>ceil_log2 n\<close> is the least \<open>k\<close> with
  \<open>n \<le> 2 ^ k\<close>.
\<close>

function ceil_log2 :: "nat \<Rightarrow> nat" where
  "ceil_log2 n = (if n \<le> 1 then 0 else Suc (ceil_log2 ((n + 1) div 2)))"
  by pat_completeness auto
termination
  by (relation "measure (\<lambda>n. n)") auto

declare ceil_log2.simps [simp del]

definition estimate_required_precison :: "CurrentSequence \<Rightarrow> py_error + nat" where
  "estimate_required_precison cs =
     (let count_limit = max (length (sites cs 1)) (length (sites cs 2)) + 1;
          bytes_required = (ceil_log2 count_limit + 1 + 7) div 8
      in if bytes_required > 8 then Inl (SystemExit ''Too  many sites annotated'')
         else Inr ([1, 1, 2, 4, 4, 8, 8, 8, 8] ! bytes_required))"

text \<open>\<open>_count_occurrences\<close>: \<open>self.seq[i][idx] += 1\<close> for every position of every site.\<close>

definition increment :: "int list \<Rightarrow> int \<Rightarrow> py_error + int list" where
  "increment a idx = bind (np_index (length a) idx) (\<lambda>k. Inr (a[k := a ! k + 1]))"

definition count_sites :: "site list \<Rightarrow> int list \<Rightarrow> py_error + int list" where
  "count_sites ss a =
     for_each (\<lambda>a site. for_each increment (py_range (sbegin site - 1) (send site)) a) ss a"

definition count_occurrences ::
    "CurrentSequence \<Rightarrow> int list \<times> int list \<Rightarrow> py_error + int list \<times> int list" where
  "count_occurrences cs arrays =
     (case arrays of (a1, a2) \<Rightarrow>
        bind (count_sites (sites cs 1) a1)
          (\<lambda>a1'. bind (count_sites (sites cs 2) a2) (\<lambda>a2'. Inr (a1', a2'))))"

text \<open>
  The constructors.  \<open>BasicSequenceCalculator.__init__\<close> assigns \<open>global_state\<close>,
  \<open>opt\<close>, \<open>current_seq\<close> and \<open>results\<close>; \<open>BasicEnrichmentSequenceCalculator.__init__\<close>
  then assigns \<open>n\<close>, \<open>seq\<close> and \<open>results\<close> and counts the occurrences.
\<close>

definition BasicSequenceCalculator_init :: "options \<Rightarrow> CurrentSequence \<Rightarrow> py_object" where
  "BasicSequenceCalculator_init op cs =
     (\<lambda>name. None)
       (''global_state'' \<mapsto> VGlobalState, ''opt'' \<mapsto> VOptions op,
        ''current_seq'' \<mapsto> VSequence cs, ''results'' \<mapsto> VNone)"

definition BasicEnrichmentSequenceCalculator_init ::
    "options \<Rightarrow> CurrentSequence \<Rightarrow> py_error + py_object" where
  "BasicEnrichmentSequenceCalculator_init op cs =
     (let self = BasicSequenceCalculator_init op cs;
          self1 = self(''n'' \<mapsto> VInt (enrichment_count op))
      in bind (estimate_required_precison cs)
           (\<lambda>bytes_required.
              bind (count_occurrences cs
                      (replicate (seq_length cs) 0, replicate (seq_length cs) 0))
                (\<lambda>arrays. case arrays of (a1, a2) \<Rightarrow>
                   Inr (self1(''seq'' \<mapsto> VCounts a1 a2,
                              ''results'' \<mapsto> VEnrichment BasicEnrichmentMeasures_init)))))"

text \<open>
  \<open>_write_measure_info_to_detailed_file(symbols_n, description, file_handler)\<close> calls
  \<open>file_handler.write\<close> without a test: on \<open>None\<close> the attribute \<open>write\<close> is missing.
\<close>

definition write_enriched_info ::
    "int \<Rightarrow> string \<Rightarrow> file_handler \<Rightarrow> py_error + file_handler" where
  "write_enriched_info symbols_n description file_handler =
     (case file_handler of
        None \<Rightarrow> Inl (AttributeError ''write'')
      | Some fh \<Rightarrow> Inr (Some (fh @ [EnrichedInfo symbols_n description])))"

text \<open>
  \<open>np.sum(a >= n)\<close>, \<open>np.sum((a - b) >= n)\<close>, \<open>np.sum((a >= n) * (b >= n))\<close> and
  \<open>np.sum((a < n) * (b < n))\<close> for two arrays of the same length.
\<close>

definition count_ge :: "int list \<Rightarrow> int \<Rightarrow> int" where
  "count_ge a n = int (length (filter (\<lambda>x. x \<ge> n) a))"

definition count_diff_ge :: "int list \<Rightarrow> int list \<Rightarrow> int \<Rightarrow> int" where
  "count_diff_ge a b n = int (length (filter (\<lambda>(x, y). x - y \<ge> n) (zip a b)))"

definition count_both_ge :: "int list \<Rightarrow> int list \<Rightarrow> int \<Rightarrow> int" where
  "count_both_ge a b n = int (length (filter (\<lambda>(x, y). x \<ge> n \<and> y \<ge> n) (zip a b)))"

definition count_both_less :: "int list \<Rightarrow> int list \<Rightarrow> int \<Rightarrow> int" where
  "count_both_less a b n = int (length (filter (\<lambda>(x, y). x < n \<and> y < n) (zip a b)))"

text \<open>
  The body of the loop \<open>for i in (1, 2)\<close> of \<open>calculate_residue_wise\<close>, on the state
  (object, file), and the method.  The attributes are read in the order in which Python
  evaluates them: the right-hand side of an assignment before its target.  The
  description of the line is \<open>'the '\<close> followed by the name of annotation \<open>i\<close>.
\<close>

definition enrichment_step ::
    "py_object \<times> file_handler \<Rightarrow> nat \<Rightarrow> py_error + py_object \<times> file_handler" where
  "enrichment_step st i =
     (case st of (self, file_handler) \<Rightarrow>
        let j = (if i = 1 then 2 else 1 :: nat)
        in bind (get_counts self ''seq'')
          (\<lambda>arrays. bind (get_int self ''n'')
          (\<lambda>n. bind (get_measures self ''results'')
          (\<lambda>r. let seq_i = (if i = 1 then fst arrays else snd arrays);
                    seq_j = (if j = 1 then fst arrays else snd arrays);
                    r1 = r\<lparr>e_of := (e_of r)(i := count_ge seq_i n)\<rparr>;
                    self1 = self(''results'' \<mapsto> VEnrichment r1)
                in bind (getattr self1 ''global_state'')
          (\<lambda>global_state. bind (write_enriched_info (e_of r1 i)
                                   (''the annotation '' @ (if i = 1 then ''1'' else ''2''))
                                   file_handler)
          (\<lambda>fh. let r2 = r1\<lparr>re_of := (re_of r1)(i := count_diff_ge seq_i seq_j n)\<rparr>
                 in Inr (self1(''results'' \<mapsto> VEnrichment r2), fh)))))))"

definition enrichment_calculate_residue_wise ::
    "py_object \<Rightarrow> file_handler \<Rightarrow> py_error + py_object \<times> file_handler" where
  "enrichment_calculate_residue_wise self file_handler =
     bind (for_each enrichment_step [1, 2] (self, file_handler))
       (\<lambda>st. case st of (self1, fh1) \<Rightarrow>
          bind (get_counts self1 ''seq'')
          (\<lambda>arrays. bind (get_int self1 ''n'')
          (\<lambda>n. bind (get_measures self1 ''results'')
          (\<lambda>r. let r1 = r\<lparr>ee := count_both_ge (fst arrays) (snd arrays) n\<rparr>
                in bind (write_enriched_info (ee r1) ''both annotations'' fh1)
          (\<lambda>fh2. let r2 = r1\<lparr>ne := count_both_less (fst arrays) (snd arrays) n\<rparr>
                  in bind (write_enriched_info (ne r2) ''neither annotations'' fh2)
          (\<lambda>fh3. bind (get_int (self1(''results'' \<mapsto> VEnrichment r2)) ''seq_length'')
          (\<lambda>seq_length.
             Inr (self1(''results'' \<mapsto>
                          VEnrichment (r2\<lparr>nre := seq_length - re_of r2 1 - re_of r2 2\<rparr>)),
                  fh3))))))))"

section \<open>DataProcessor: the database averages\<close>

text \<open>
  Modelled from the spec: \<open>PerformanceMeasures\<close> and its \<open>+=\<close> are defined in
  \<open>slalom_structures\<close>.  The database total of one measure is the pair of the value
  \<open>get_value\<close> returns and the count \<open>get_count\<close> returns; it starts at zero, and
  adding a group's measures is a "simple sum per named measure, plus a per-measure count
  of groups where it was defined".
\<close>

type_synonym measure_total = "pyfloat \<times> nat"

definition database_results_init :: measure_total where
  "database_results_init = (Num 0, 0)"

fun iadd :: "measure_total \<Rightarrow> pyfloat \<Rightarrow> measure_total" where
  "iadd (Num s, cnt) (Num v) = (Num (s + v), Suc cnt)"
| "iadd (NaN, cnt) (Num v) = (NaN, Suc cnt)"
| "iadd acc NaN = acc"

text \<open>The division \<open>value / n\<close> of a float by an integer.\<close>

definition div_by :: "pyfloat \<Rightarrow> nat \<Rightarrow> py_error + pyfloat" where
  "div_by v n =
     (if n = 0 then Inl ZeroDivisionError
      else Inr (case v of NaN \<Rightarrow> NaN | Num x \<Rightarrow> Num (x / real n)))"

text \<open>
  The value \<open>_produce_final_string\<close> formats for one measure:
  \<^verbatim>\<open>value = results.get_value(attr_name)\<close>
  \<^verbatim>\<open>if not na_zeros:\<close>
  \<^verbatim>\<open>    if not math.isnan(value):\<close>
  \<^verbatim>\<open>        value = value / results.get_count(attr_name) if groups_n else value\<close>
  \<^verbatim>\<open>else:\<close>
  \<^verbatim>\<open>    if math.isnan(value): value = 0.0\<close>
  \<^verbatim>\<open>    else: value = value / groups_n if groups_n else value\<close>
\<close>

definition final_value :: "measure_total \<Rightarrow> bool \<Rightarrow> nat \<Rightarrow> py_error + pyfloat" where
  "final_value database_results na_zeros groups_n =
     (let value = fst database_results
      in if \<not> na_zeros
         then (if \<not> isnan value
               then (if groups_n \<noteq> 0 then div_by value (snd database_results) else Inr value)
               else Inr value)
         else (if isnan value then Inr (Num 0)
               else if groups_n \<noteq> 0 then div_by value groups_n else Inr value))"

text \<open>
  \<open>DataProcessor.process\<close> with a group mapping, for one measure: the values of the
  groups are added to the database total one after the other, \<open>groups_n\<close> is the number
  of groups.
\<close>

definition database_value :: "bool \<Rightarrow> pyfloat list \<Rightarrow> py_error + pyfloat" where
  "database_value na_zeros group_values =
     final_value (foldl iadd database_results_init group_values) na_zeros (length group_values)"

text \<open>The defined values of the groups, and a value with not-a-number read as zero.\<close>

fun defined_values :: "pyfloat list \<Rightarrow> real list" where
  "defined_values [] = []"
| "defined_values (NaN # vs) = defined_values vs"
| "defined_values (Num x # vs) = x # defined_values vs"

fun na_as_zero :: "pyfloat \<Rightarrow> real" where
  "na_as_zero NaN = 0"
| "na_as_zero (Num x) = x"

section \<open>The examples of the specification\<close>

text \<open>
  Example 1: a sequence of length 10 with the annotation-1 site [1,5] and the
  annotation-2 site [3,8], no grouping, and files for the four Boolean output types.
\<close>

definition example_options :: options where
  "example_options =
     \<lparr>predictor_nature = ''neutral'', overlap_apply = ''shortest'', overlap_symbols = 1,
      overlap_part = 1/2, gross = False, site_names = False, site_difference = ''all'',
      group_map = False, enrichment_count = 0\<rparr>"

definition example_sequence :: CurrentSequence where
  "example_sequence =
     \<lparr>GID = [], SID = ''seq'', seq_length = 10,
      sites1 = [mk_site 1 5], sites2 = [mk_site 3 8]\<rparr>"

definition example_files :: "(string \<times> file_handler) list" where
  "example_files =
     [(''union'', Some []), (''intersection'', Some []),
      (''complement1'', Some []), (''complement2'', Some [])]"

definition example_calculator :: calculator where
  "example_calculator =
     \<lparr>opt = example_options, current_seq = example_sequence,
      seq = [1, 1, 3, 3, 3, 2, 2, 2, 0, 0], results = BasicBooleanMeasures_init\<rparr>"

section \<open>Readings of the results\<close>

text \<open>
  The four symbol-wise counts \<open>(pp, pa, ap, aa)\<close> of a record, and the counts that
  \<open>calculate_residue_wise\<close> leaves in the results of the calculator.
\<close>

definition symbol_counts :: "int BasicBooleanMeasures \<Rightarrow> int \<times> int \<times> int \<times> int" where
  "symbol_counts r = (pp r, pa r, ap r, aa r)"

definition residue_wise_counts ::
    "calculator \<Rightarrow> file_handler \<Rightarrow> py_error + int \<times> int \<times> int \<times> int" where
  "residue_wise_counts c detailed_file_h =
     bind (calculate_residue_wise c detailed_file_h)
       (\<lambda>res. Inr (symbol_counts (results (fst res))))"

text \<open>
  A sequence of length 3 whose first annotation has the two overlapping sites [1,2] and
  [2,3] (overlaps within an annotation are kept by the policy \<open>all\<close>), with gross
  counting.
\<close>

definition gross_options :: options where
  "gross_options = example_options\<lparr>gross := True\<rparr>"

definition gross_sequence :: CurrentSequence where
  "gross_sequence =
     \<lparr>GID = [], SID = ''seq'', seq_length = 3,
      sites1 = [mk_site 1 2, mk_site 2 3], sites2 = []\<rparr>"

definition gross_calculator :: calculator where
  "gross_calculator =
     \<lparr>opt = gross_options, current_seq = gross_sequence,
      seq = [1, 1, 1], results = BasicBooleanMeasures_init\<rparr>"

text \<open>The sites of a sequence lie within the sequence.\<close>

definition sites_in_range :: "CurrentSequence \<Rightarrow> bool" where
  "sites_in_range cs =
     list_all (\<lambda>s. 1 \<le> sbegin s \<and> send s \<le> int (seq_length cs)) (sites1 cs @ sites2 cs)"

text \<open>An array of length \<open>n\<close> that holds only the four categories 0 to 3.\<close>

definition classified :: "nat \<Rightarrow> int list \<Rightarrow> bool" where
  "classified n a \<longleftrightarrow> length a = n \<and> set a \<subseteq> {0, 1, 2, 3}"

text \<open>
  The number of sites of annotation \<open>i\<close> that have been counted as matched or as
  unmatched (\<open>site_m[i] + site_nm[i]\<close>, the measure \<open>site_n1\<close> or \<open>site_n2\<close> of
  \<open>PerformanceCalculator\<close>).
\<close>

definition site_n :: "int BasicBooleanMeasures \<Rightarrow> nat \<Rightarrow> int" where
  "site_n r i = site_m r i + site_nm r i"

text \<open>Every site of the sequence has \<open>begin \<le> end\<close>, as the parser of the annotations requires.\<close>

definition sites_well_formed :: "CurrentSequence \<Rightarrow> bool" where
  "sites_well_formed cs = list_all (\<lambda>s. sbegin s \<le> send s) (sites1 cs @ sites2 cs)"

text \<open>The three \<open>overlap_apply\<close> policies that match the sites pairwise.\<close>

definition pairwise_policy :: "options \<Rightarrow> bool" where
  "pairwise_policy op \<longleftrightarrow> overlap_apply op = ''shortest'' \<or> overlap_apply op = ''longest''
           \<or> overlap_apply op = ''current''"

text \<open>The options of the examples with enrichment mode switched on (\<open>-n 1\<close>).\<close>

definition enrichment_options :: options where
  "enrichment_options = example_options\<lparr>enrichment_count := 1\<rparr>"

section \<open>Theorems\<close>

subsection \<open>Sequencing\<close>

lemma bind_Inr [simp]: "bind (Inr x) f = f x"
  by (simp add: bind_def)

lemma bind_Inl [simp]: "bind (Inl e) f = Inl e"
  by (simp add: bind_def)

lemma bind_eq_Inr: "bind m f = Inr y \<longleftrightarrow> (\<exists>x. m = Inr x \<and> f x = Inr y)"
  by (cases m) simp_all


subsection \<open>The Matthews correlation coefficient\<close>

lemma float_div_nonzero: "b \<noteq> 0 \<Longrightarrow> float_div a b = Inr (Num (a / b))"
  by (simp add: float_div_def)

lemma calc_mcc_pos:
  "0 < mcc_temp bm \<Longrightarrow>
     calc_mcc bm = Inr (Num ((pp bm * aa bm + ap bm * pa bm) / sqrt (mcc_temp bm)))"
proof -
  assume pos: "0 < mcc_temp bm"
  then have "0 < sqrt (mcc_temp bm)" by (rule real_sqrt_gt_zero)
  then have "sqrt (mcc_temp bm) \<noteq> 0" by (rule less_imp_neq [symmetric])
  then have "float_div (pp bm * aa bm + ap bm * pa bm) (sqrt (mcc_temp bm))
        = Inr (Num ((pp bm * aa bm + ap bm * pa bm) / sqrt (mcc_temp bm)))"
    by (rule float_div_nonzero)
  with pos show ?thesis
    unfolding calc_mcc_def Let_def by (simp only: if_True)
qed

lemma calc_mcc_nonpos: "\<not> 0 < mcc_temp bm \<Longrightarrow> calc_mcc bm = Inr NaN"
  unfolding calc_mcc_def Let_def by (simp only: if_False)

lemma mcc_temp_nonneg:
  assumes "0 \<le> pp bm" "0 \<le> pa bm" "0 \<le> ap bm" "0 \<le> aa bm"
  shows "0 \<le> mcc_temp bm"
  using assms by (simp add: mcc_temp_def)

lemma sqrt_sixteenth: "sqrt (1/16) = 1/4"
  by (rule real_sqrt_unique) (simp_all add: power2_eq_square)

text \<open>
  C1.  On the group whose four symbol-wise shares are all 1/4 (one sequence of length 4
  with annotation-1 site [1,2] and annotation-2 site [2,3]), \<open>_calc_mcc\<close> stores 1/2,
  while the formula \<open>(pp*aa - ap*pa) / sqrt((pp+pa)(pp+ap)(aa+ap)(aa+pa))\<close> gives 0
  there, with a strictly positive denominator product: the source adds the two
  products of the numerator where the Matthews correlation coefficient subtracts them.
\<close>

theorem calc_mcc_adds_products:
  "calc_mcc quarter_measures = Inr (Num (1/2))
   \<and> mcc_spec quarter_measures = 0
   \<and> 0 < mcc_temp quarter_measures"
  by (simp add: calc_mcc_def mcc_spec_def mcc_temp_def quarter_measures_def float_div_def
      sqrt_sixteenth)

text \<open>
  C8.  For nonnegative counts \<open>_calc_mcc\<close> never raises, and its value is the
  not-a-number sentinel exactly when \<open>(pp+pa)*(pp+ap)*(aa+ap)*(aa+pa) = 0\<close>.
\<close>

theorem calc_mcc_nan_iff:
  assumes "0 \<le> pp bm" "0 \<le> pa bm" "0 \<le> ap bm" "0 \<le> aa bm"
  shows "\<exists>v. calc_mcc bm = Inr v \<and> (v = NaN \<longleftrightarrow> mcc_temp bm = 0)"
proof (cases "0 < mcc_temp bm")
  case True
  then have "mcc_temp bm \<noteq> 0" by (rule less_imp_neq [symmetric])
  with calc_mcc_pos [OF True] show ?thesis by simp
next
  case False
  with mcc_temp_nonneg [OF assms] have "mcc_temp bm = 0" by (simp only: not_less antisym)
  with calc_mcc_nonpos [OF False] show ?thesis by simp
qed

theorem calc_mcc_nan_iff_witness:
  "(\<exists>v. calc_mcc quarter_measures = Inr v \<and> v \<noteq> NaN)
   \<and> calc_mcc all_present_measures = Inr NaN"
  using calc_mcc_nan_iff [of quarter_measures] calc_mcc_nan_iff [of all_present_measures]
  by (auto simp: quarter_measures_def all_present_measures_def mcc_temp_def
      BasicBooleanMeasures_init_def)


subsection \<open>Resolution of overlaps\<close>

lemma first_loop_acc: "first_loop acc le ss = acc @ first_loop [] le ss"
proof (induction ss arbitrary: acc le)
  case Nil
  then show ?case by simp
next
  case (Cons s ss)
  show ?case
    using Cons.IH [of "acc @ [s]" "send s"] Cons.IH [of acc "send s"] Cons.IH [of "[s]" "send s"]
    by simp
qed

lemma first_loop_filter:
  "first_loop [] le ss
     = map snd (filter (\<lambda>(pe, s). sbegin s > pe) (zip (le # map send ss) ss))"
proof (induction ss arbitrary: le)
  case Nil
  then show ?case by simp
next
  case (Cons s ss)
  show ?case
    using Cons.IH [of "send s"] first_loop_acc [of "[s]" "send s" ss]
    by simp
qed

lemma zip_as_indices:
  "zip xs ys = map (\<lambda>k. (xs ! k, ys ! k)) [0..<min (length xs) (length ys)]"
proof (rule nth_equalityI)
  show "length (zip xs ys) = length (map (\<lambda>k. (xs ! k, ys ! k)) [0..<min (length xs) (length ys)])"
    by simp
next
  fix i
  assume "i < length (zip xs ys)"
  then show "zip xs ys ! i = map (\<lambda>k. (xs ! k, ys ! k)) [0..<min (length xs) (length ys)] ! i"
    by simp
qed

lemma previous_end_nth:
  "(0 # map send ss) ! k = previous_end ss k" if "k < length ss"
  using that by (cases k) (simp_all add: previous_end_def)

text \<open>
  C2.  With policy \<open>merge\<close>, the sorted list [1,10], [2,3] becomes the single site
  [1,3]: the merged site ends at the end of the last site of the run, not at the
  largest end of the run, and position 10, covered by the input, is no longer covered.
\<close>

theorem merge_loses_positions:
  "resolve_overlaps ''merge'' [mk_site 1 10, mk_site 2 3] = [mk_site 1 3]
   \<and> 10 \<in> covered [mk_site 1 10, mk_site 2 3]
   \<and> 10 \<notin> covered (resolve_overlaps ''merge'' [mk_site 1 10, mk_site 2 3])"
  by (simp add: resolve_overlaps_def covered_def mk_site_def)

text \<open>
  C3, as stated, fails: on [1,3], [2,5], [4,8] the rule "keep a site iff its begin
  exceeds the end of the previously kept site" keeps [1,3] and [4,8], while the policy
  \<open>first\<close> keeps [1,3] only.
\<close>

theorem first_is_not_previously_kept:
  "resolve_overlaps ''first'' [mk_site 1 3, mk_site 2 5, mk_site 4 8]
     \<noteq> first_spec 0 [mk_site 1 3, mk_site 2 5, mk_site 4 8]"
  by (simp add: resolve_overlaps_def mk_site_def)

lemma first_keeps_after_previous_end:
  "resolve_overlaps ''first'' ss =
     map (\<lambda>k. ss ! k) (filter (\<lambda>k. sbegin (ss ! k) > previous_end ss k) [0..<length ss])"
proof -
  let ?pe = "0 # map send ss"
  have "resolve_overlaps ''first'' ss
          = map snd (filter (\<lambda>(pe, s). sbegin s > pe) (zip ?pe ss))"
    by (simp add: resolve_overlaps_def first_loop_filter)
  also have "zip ?pe ss = map (\<lambda>k. (?pe ! k, ss ! k)) [0..<length ss]"
    by (subst zip_as_indices) simp
  also have "map snd (filter (\<lambda>(pe, s). sbegin s > pe) (map (\<lambda>k. (?pe ! k, ss ! k)) [0..<length ss]))
          = map (\<lambda>k. ss ! k) (filter (\<lambda>k. sbegin (ss ! k) > ?pe ! k) [0..<length ss])"
    by (simp add: filter_map comp_def)
  also have "filter (\<lambda>k. sbegin (ss ! k) > ?pe ! k) [0..<length ss]
          = filter (\<lambda>k. sbegin (ss ! k) > previous_end ss k) [0..<length ss]"
    by (rule filter_cong) (simp_all add: previous_end_nth)
  finally show ?thesis .
qed

lemma first_loop_Cons:
  "first_loop [] le (s # ss)
     = (if sbegin s > le then [s] else []) @ first_loop [] (send s) ss"
  using first_loop_acc [of "[s]" "send s" ss] by simp

lemma first_loop_begins_after:
  assumes "sorted (le # map send ss)" "b \<in> set (first_loop [] le ss)"
  shows "le < sbegin b"
  using assms
proof (induction ss arbitrary: le)
  case Nil
  then show ?case by simp
next
  case (Cons s ss)
  from Cons.prems(1) have le: "le \<le> send s" and rest: "sorted (send s # map send ss)"
    by simp_all
  from Cons.prems(2) consider (head) "sbegin s > le" "b = s"
    | (tail) "b \<in> set (first_loop [] (send s) ss)"
    by (auto simp: first_loop_Cons simp del: first_loop.simps split: if_splits)
  then show ?case
  proof cases
    case head
    then show ?thesis by simp
  next
    case tail
    from Cons.IH [OF rest tail] le show ?thesis by simp
  qed
qed

lemma first_loop_non_overlapping:
  assumes "sorted (map send ss)"
  shows "sorted_wrt (\<lambda>a b. send a < sbegin b) (first_loop [] le ss)"
  using assms
proof (induction ss arbitrary: le)
  case Nil
  then show ?case by simp
next
  case (Cons s ss)
  from Cons.prems have tail_sorted: "sorted (map send ss)" and
    with_head: "sorted (send s # map send ss)"
    by simp_all
  have after: "send s < sbegin b" if "b \<in> set (first_loop [] (send s) ss)" for b
    using with_head that by (rule first_loop_begins_after)
  from Cons.IH [OF tail_sorted, of "send s"] after show ?case
    by (simp add: first_loop_Cons sorted_wrt_append del: first_loop.simps)
qed

text \<open>
  Within lists whose ends are ascending, the sites that \<open>first\<close> keeps do not overlap:
  each kept site begins after the end of every kept site before it.
\<close>

lemma first_non_overlapping:
  assumes "sorted (map send ss)"
  shows "sorted_wrt (\<lambda>a b. send a < sbegin b) (resolve_overlaps ''first'' ss)"
  using first_loop_non_overlapping [OF assms] by (simp add: resolve_overlaps_def)

text \<open>
  With a site that lies within an earlier one the comparison with the preceding site
  lets a later site through: of [1,10], [2,3], [5,6] the policy keeps [1,10] and [5,6].
\<close>

lemma first_nested_example:
  "resolve_overlaps ''first'' [mk_site 1 10, mk_site 2 3, mk_site 5 6]
     = [mk_site 1 10, mk_site 5 6]"
  by (simp add: resolve_overlaps_def mk_site_def)

text \<open>
  C3, amended.  For a list of sites sorted by begin in which the ends are ascending as
  well (no site lies within an earlier one), the policy \<open>first\<close> keeps the site at
  position \<open>k\<close> of the list if and only if its begin exceeds the end of the site just
  before it in the list, kept or not (0 for the first site); the kept sites stay in
  their order.
\<close>

theorem first_keeps_iff:
  assumes "sorted (map sbegin ss)" "sorted (map send ss)"
  shows "resolve_overlaps ''first'' ss =
     map (\<lambda>k. ss ! k) (filter (\<lambda>k. sbegin (ss ! k) > previous_end ss k) [0..<length ss])"
  by (rule first_keeps_after_previous_end)

theorem first_keeps_iff_witness:
  "sorted (map sbegin [mk_site 1 3, mk_site 2 5, mk_site 4 8, mk_site 9 9])
   \<and> sorted (map send [mk_site 1 3, mk_site 2 5, mk_site 4 8, mk_site 9 9])
   \<and> resolve_overlaps ''first'' [mk_site 1 3, mk_site 2 5, mk_site 4 8, mk_site 9 9]
     = [mk_site 1 3, mk_site 9 9]"
proof -
  have sorted: "sorted (map sbegin [mk_site 1 3, mk_site 2 5, mk_site 4 8, mk_site 9 9])"
    "sorted (map send [mk_site 1 3, mk_site 2 5, mk_site 4 8, mk_site 9 9])"
    by (simp_all add: mk_site_def)
  from first_keeps_iff [OF sorted] sorted show ?thesis
    by (simp add: previous_end_def mk_site_def upt_rec numeral_eq_Suc)
qed

subsection \<open>Classification of the symbols and the derived intervals\<close>

lemma example_init:
  "BasicBooleanSequenceCalculator_init example_options example_sequence = Inr example_calculator"
  by (simp add: BasicBooleanSequenceCalculator_init_def classify_symbols_def example_sequence_def
      example_calculator_def sites_def mk_site_def py_range_def upto_rec1 mark_first_def
      mark_second_def np_index_def numeral_eq_Suc)

lemma example_residue_wise:
  "residue_wise_counts example_calculator None = Inr (3, 2, 3, 2)"
  by (simp add: residue_wise_counts_def symbol_counts_def calculate_residue_wise_def
      example_calculator_def example_options_def if_handler_def count_eq_def Let_def)

lemmas write_runs_simps =
  write_runs_def py_range_def upto_rec1 scan_step_def in_type_def in_union_def
  in_intersection_def in_complement1_def in_complement2_def
  np_getitem_def np_index_def example_calculator_def example_sequence_def write_site_def

lemma example_union:
  "write_runs ''union'' example_calculator [] = Inr [OutSite [] ''seq'' 1 8]"
  by (simp add: write_runs_simps)

lemma example_intersection:
  "write_runs ''intersection'' example_calculator [] = Inr [OutSite [] ''seq'' 3 5]"
  by (simp add: write_runs_simps)

lemma example_complement1:
  "write_runs ''complement1'' example_calculator [] = Inr [OutSite [] ''seq'' 6 8]"
  by (simp add: write_runs_simps)

lemma example_complement2:
  "write_runs ''complement2'' example_calculator [] = Inr [OutSite [] ''seq'' 1 2]"
  by (simp add: write_runs_simps)

text \<open>
  C6.  For the sequence of length 10 with annotation-1 site [1,5] and annotation-2 site
  [3,8], the constructor classifies the positions as 1,1,3,3,3,2,2,2,0,0, the
  residue-wise counts are (pp, pa, ap, aa) = (3, 2, 3, 2), and the files get one run
  each: union [1,8], intersection [3,5], complement1 (only in annotation 2) [6,8] and
  complement2 (only in annotation 1) [1,2].
\<close>

theorem example_classification:
  "BasicBooleanSequenceCalculator_init example_options example_sequence = Inr example_calculator
   \<and> residue_wise_counts example_calculator None = Inr (3, 2, 3, 2)
   \<and> write_to_files example_calculator example_files
        = Inr [(''union'', Some [OutSite [] ''seq'' 1 8]),
               (''intersection'', Some [OutSite [] ''seq'' 3 5]),
               (''complement1'', Some [OutSite [] ''seq'' 6 8]),
               (''complement2'', Some [OutSite [] ''seq'' 1 2])]"
proof (intro conjI)
  show "write_to_files example_calculator example_files
        = Inr [(''union'', Some [OutSite [] ''seq'' 1 8]),
               (''intersection'', Some [OutSite [] ''seq'' 3 5]),
               (''complement1'', Some [OutSite [] ''seq'' 6 8]),
               (''complement2'', Some [OutSite [] ''seq'' 1 2])]"
    by (simp add: example_files_def write_one_file_def example_union example_intersection
        example_complement1 example_complement2)
qed (rule example_init, rule example_residue_wise)

subsection \<open>The overlap of two sites\<close>

text \<open>
  C7.  With neutral predictor nature the number of overlapped symbols is
  \<open>max(0, min(site.end, cand.end) - max(site.begin, cand.begin) + 1)\<close>.  With
  \<open>overlap_apply = shortest\<close>, \<open>overlap_symbols = 1\<close> and \<open>overlap_part = 0.5\<close>, the
  site [3,5] and the candidate [4,10] overlap by 2 symbols, the effective length is 3,
  the overlap is sufficient, and the search returns the candidate as the match.
\<close>

theorem overlap_extent_neutral:
  assumes "predictor_nature op = ''neutral''"
  shows "get_overlapped_symbols op site cand i
           = max 0 (min (send site) (send cand) - max (sbegin site) (sbegin cand) + 1)
         \<and> get_overlapped_symbols example_options (mk_site 3 5) (mk_site 4 10) i = 2
         \<and> get_site_length example_options (mk_site 3 5) (mk_site 4 10) = Some 3
         \<and> check_overlap_sufficiency example_options (PyInt 2) (Some 3) = Inr True
         \<and> find_match example_options (mk_site 3 5) i [mk_site 4 10]
             = Inr (Some (mk_site 4 10, 2))"
proof -
  have arith: "max (min (min (min (e - b') (e' - b)) (e - b)) (e' - b') + 1) 0
                 = max 0 (min e e' - max b b' + 1)" for e e' b b' :: int
    by linarith
  have general: "get_overlapped_symbols op site cand i
           = max 0 (min (send site) (send cand) - max (sbegin site) (sbegin cand) + 1)"
    using assms by (simp add: get_overlapped_symbols_def Let_def arith)
  have example: "get_overlapped_symbols example_options (mk_site 3 5) (mk_site 4 10) i = 2"
    by (simp add: get_overlapped_symbols_def example_options_def mk_site_def)
  have len: "get_site_length example_options (mk_site 3 5) (mk_site 4 10) = Some 3"
    by (simp add: get_site_length_def example_options_def mk_site_def)
  have suff: "check_overlap_sufficiency example_options (PyInt 2) (Some 3) = Inr True"
    by (simp add: check_overlap_sufficiency_def example_options_def)
  have "find_match example_options (mk_site 3 5) i [mk_site 4 10]
          = Inr (Some (mk_site 4 10, 2))"
    by (simp add: example len suff) (simp add: mk_site_def)
  with general example len suff show ?thesis by simp
qed

theorem overlap_extent_neutral_witness:
  "get_overlapped_symbols example_options (mk_site 1 5) (mk_site 3 8) 1 = 3
   \<and> get_overlapped_symbols example_options (mk_site 1 2) (mk_site 6 8) 2 = 0"
  using overlap_extent_neutral [of example_options "mk_site 1 5" "mk_site 3 8" 1]
    overlap_extent_neutral [of example_options "mk_site 1 2" "mk_site 6 8" 2]
  by (simp add: example_options_def mk_site_def)

subsection \<open>The database averages\<close>

lemma foldl_iadd:
  "foldl iadd (Num s, cnt) vs
     = (Num (s + sum_list (defined_values vs)), cnt + length (defined_values vs))"
proof (induction vs arbitrary: s cnt)
  case Nil
  then show ?case by simp
next
  case (Cons v vs)
  then show ?case by (cases v) (simp_all add: add.assoc)
qed

lemma sum_na_as_zero: "sum_list (map na_as_zero vs) = sum_list (defined_values vs)"
  by (induction vs rule: defined_values.induct) simp_all

lemma database_value_skip:
  "defined_values vs \<noteq> [] \<Longrightarrow>
     database_value False vs
       = Inr (Num (sum_list (defined_values vs) / real (length (defined_values vs))))"
proof -
  assume d: "defined_values vs \<noteq> []"
  then have "vs \<noteq> []" by auto
  with d show ?thesis
    by (simp add: database_value_def database_results_init_def foldl_iadd final_value_def
        div_by_def)
qed

lemma database_value_na_zeros:
  "vs \<noteq> [] \<Longrightarrow>
     database_value True vs = Inr (Num (sum_list (map na_as_zero vs) / real (length vs)))"
  by (simp add: database_value_def database_results_init_def foldl_iadd final_value_def
      div_by_def sum_na_as_zero)

text \<open>
  C5.  Over the groups of a database, for one measure: without \<open>na_zeros\<close>, when the
  measure is defined in at least one group, the database value is the sum of the defined
  group values divided by the number of groups where the measure is defined; with
  \<open>na_zeros\<close>, for at least one group, it is the sum with undefined values read as
  zero, divided by the number of groups.  For two groups with the measure undefined in one
  and 0.8 in the other, the values are 0.8 and 0.4.
\<close>

theorem database_average:
  "(defined_values vs \<noteq> [] \<longrightarrow>
      database_value False vs
        = Inr (Num (sum_list (defined_values vs) / real (length (defined_values vs)))))
   \<and> (vs \<noteq> [] \<longrightarrow>
      database_value True vs = Inr (Num (sum_list (map na_as_zero vs) / real (length vs))))
   \<and> database_value False [NaN, Num (8/10)] = Inr (Num (8/10))
   \<and> database_value True [NaN, Num (8/10)] = Inr (Num (4/10))"
proof (intro conjI impI)
  show "database_value False [NaN, Num (8/10)] = Inr (Num (8/10))"
    using database_value_skip [of "[NaN, Num (8/10)]"] by simp
  show "database_value True [NaN, Num (8/10)] = Inr (Num (4/10))"
    using database_value_na_zeros [of "[NaN, Num (8/10)]"] by simp
qed (simp_all add: database_value_skip database_value_na_zeros)

theorem database_average_witness:
  "database_value False [Num 1, NaN, Num 2] = Inr (Num (3/2))
   \<and> database_value True [Num 1, NaN, Num 2] = Inr (Num 1)"
  using database_average [of "[Num 1, NaN, Num 2]"] by simp

subsection \<open>The residue-wise counts\<close>

lemma np_index_less: "np_index n idx = Inr k \<Longrightarrow> k < n"
  by (auto simp: np_index_def split: if_splits)

lemma np_index_in_range: "0 \<le> idx \<Longrightarrow> idx < int n \<Longrightarrow> np_index n idx = Inr (nat idx)"
  by (simp add: np_index_def)

lemma for_each_invariant:
  assumes "for_each body xs s = Inr s'" and "P s"
    and step: "\<And>s x s'. P s \<Longrightarrow> x \<in> set xs \<Longrightarrow> body s x = Inr s' \<Longrightarrow> P s'"
  shows "P s'"
  using assms(1,2) step
proof (induction xs arbitrary: s)
  case Nil
  then show ?case by simp
next
  case (Cons x xs)
  from Cons.prems(1) obtain s1 where s1: "body s x = Inr s1" and rest: "for_each body xs s1 = Inr s'"
    by (auto simp: bind_eq_Inr)
  have "P s1"
    by (rule Cons.prems(3) [OF Cons.prems(2) _ s1]) simp
  show ?case
  proof (rule Cons.IH [OF rest \<open>P s1\<close>])
    fix t y t'
    assume "P t" "y \<in> set xs" "body t y = Inr t'"
    then show "P t'" by (intro Cons.prems(3) [of t y t']) simp_all
  qed
qed

lemma for_each_total:
  assumes "P s"
    and "\<And>s x. P s \<Longrightarrow> x \<in> set xs \<Longrightarrow> \<exists>s'. body s x = Inr s' \<and> P s'"
  shows "\<exists>s'. for_each body xs s = Inr s' \<and> P s'"
  using assms
proof (induction xs arbitrary: s)
  case Nil
  then show ?case by simp
next
  case (Cons x xs)
  from Cons.prems obtain s1 where s1: "body s x = Inr s1" "P s1"
    by (meson list.set_intros(1))
  with Cons.IH [of s1] Cons.prems(2) show ?case by simp
qed

lemma mark_first_classified:
  "classified n a \<Longrightarrow> mark_first a idx = Inr a' \<Longrightarrow> classified n a'"
  by (auto simp: mark_first_def classified_def bind_eq_Inr dest!: set_update_subset_insert [THEN subsetD])

lemma mark_second_classified:
  "classified n a \<Longrightarrow> mark_second a idx = Inr a' \<Longrightarrow> classified n a'"
  by (auto simp: mark_second_def classified_def bind_eq_Inr split: if_splits
      dest!: set_update_subset_insert [THEN subsetD])

lemma mark_first_site_classified:
  assumes "for_each mark_first idxs a = Inr a'" "classified n a"
  shows "classified n a'"
  using assms(1)
proof (rule for_each_invariant [where P = "classified n"])
  show "classified n a" by (rule assms(2))
qed (rule mark_first_classified)

lemma mark_second_site_classified:
  assumes "for_each mark_second idxs a = Inr a'" "classified n a"
  shows "classified n a'"
  using assms(1)
proof (rule for_each_invariant [where P = "classified n"])
  show "classified n a" by (rule assms(2))
qed (rule mark_second_classified)

lemma classify_symbols_classified:
  assumes "classify_symbols cs a = Inr a'" "classified n a"
  shows "classified n a'"
proof -
  from assms(1) obtain a1 where
    first: "for_each (\<lambda>a site. for_each mark_first (py_range (sbegin site - 1) (send site)) a)
              (sites cs 1) a = Inr a1" and
    second: "for_each (\<lambda>a site. for_each mark_second (py_range (sbegin site - 1) (send site)) a)
              (sites cs 2) a1 = Inr a'"
    by (auto simp: classify_symbols_def bind_eq_Inr)
  from first have "classified n a1"
  proof (rule for_each_invariant [where P = "classified n"])
    show "classified n a" by (rule assms(2))
  qed (rule mark_first_site_classified)
  with second show ?thesis
  proof (rule for_each_invariant [where P = "classified n"])
  qed (rule mark_second_site_classified)
qed

lemma init_classified:
  assumes "BasicBooleanSequenceCalculator_init op cs = Inr c"
  shows "classified (seq_length cs) (seq c) \<and> opt c = op \<and> current_seq c = cs"
proof -
  from assms obtain a where a: "classify_symbols cs (replicate (seq_length cs) 0) = Inr a"
    and c: "c = \<lparr>opt = op, current_seq = cs, seq = a, results = BasicBooleanMeasures_init\<rparr>"
    by (auto simp: BasicBooleanSequenceCalculator_init_def bind_eq_Inr)
  have "classified (seq_length cs) (replicate (seq_length cs) 0)"
    by (auto simp: classified_def)
  with a have "classified (seq_length cs) a" by (rule classify_symbols_classified)
  with c show ?thesis by simp
qed

lemma counts_sum:
  "set a \<subseteq> {0, 1, 2, 3} \<Longrightarrow> count_eq a 3 + count_eq a 1 + count_eq a 2 + count_eq a 0 = int (length a)"
  by (induction a) (auto simp: count_eq_def)

lemma residue_wise_counts_plain:
  assumes "\<not> gross (opt c)"
  shows "residue_wise_counts c dh
           = Inr (count_eq (seq c) 3, count_eq (seq c) 1, count_eq (seq c) 2, count_eq (seq c) 0)"
  using assms
  by (cases dh)
     (simp_all add: residue_wise_counts_def calculate_residue_wise_def if_handler_def Let_def
       write_measure_info_def getattr_results_def symbol_counts_def)


lemma set_py_range: "set (py_range a b) = {a..<b}"
  by (auto simp: py_range_def)

lemma mark_first_total:
  assumes "1 \<le> sbegin site" "send site \<le> int n" "length a = n"
  shows "\<exists>a'. for_each mark_first (py_range (sbegin site - 1) (send site)) a = Inr a'
              \<and> length a' = n"
proof (rule for_each_total [where P = "\<lambda>a. length a = n"])
  show "length a = n" by (rule assms(3))
next
  fix b :: "int list" and idx
  assume "length b = n" "idx \<in> set (py_range (sbegin site - 1) (send site))"
  with assms(1,2) show "\<exists>b'. mark_first b idx = Inr b' \<and> length b' = n"
    by (simp add: set_py_range mark_first_def np_index_in_range)
qed

lemma mark_second_total:
  assumes "1 \<le> sbegin site" "send site \<le> int n" "length a = n"
  shows "\<exists>a'. for_each mark_second (py_range (sbegin site - 1) (send site)) a = Inr a'
              \<and> length a' = n"
proof (rule for_each_total [where P = "\<lambda>a. length a = n"])
  show "length a = n" by (rule assms(3))
next
  fix b :: "int list" and idx
  assume "length b = n" "idx \<in> set (py_range (sbegin site - 1) (send site))"
  with assms(1,2) show "\<exists>b'. mark_second b idx = Inr b' \<and> length b' = n"
    by (simp add: set_py_range mark_second_def np_index_in_range)
qed

lemma sites_simps [simp]:
  "sites cs 1 = sites1 cs" "sites cs (Suc 0) = sites1 cs" "sites cs 2 = sites2 cs"
  by (simp_all add: sites_def)

lemma classify_symbols_total:
  assumes "sites_in_range cs" "length a = seq_length cs"
  shows "\<exists>a'. classify_symbols cs a = Inr a'"
proof -
  have in1: "1 \<le> sbegin s \<and> send s \<le> int (seq_length cs)" if "s \<in> set (sites1 cs)" for s
    using assms(1) that by (auto simp: sites_in_range_def list_all_iff)
  have in2: "1 \<le> sbegin s \<and> send s \<le> int (seq_length cs)" if "s \<in> set (sites2 cs)" for s
    using assms(1) that by (auto simp: sites_in_range_def list_all_iff)
  have "\<exists>a1. for_each (\<lambda>a site. for_each mark_first (py_range (sbegin site - 1) (send site)) a)
              (sites1 cs) a = Inr a1 \<and> length a1 = seq_length cs"
  proof (rule for_each_total [where P = "\<lambda>a. length a = seq_length cs"])
    show "length a = seq_length cs" by (rule assms(2))
  next
    fix b :: "int list" and s
    assume "length b = seq_length cs" "s \<in> set (sites1 cs)"
    then show "\<exists>b'. for_each mark_first (py_range (sbegin s - 1) (send s)) b = Inr b'
                   \<and> length b' = seq_length cs"
      using in1 [of s] by (intro mark_first_total) simp_all
  qed
  then obtain a1 where a1:
    "for_each (\<lambda>a site. for_each mark_first (py_range (sbegin site - 1) (send site)) a)
       (sites1 cs) a = Inr a1" "length a1 = seq_length cs"
    by blast
  have "\<exists>a2. for_each (\<lambda>a site. for_each mark_second (py_range (sbegin site - 1) (send site)) a)
              (sites2 cs) a1 = Inr a2 \<and> length a2 = seq_length cs"
  proof (rule for_each_total [where P = "\<lambda>a. length a = seq_length cs"])
    show "length a1 = seq_length cs" by (rule a1(2))
  next
    fix b :: "int list" and s
    assume "length b = seq_length cs" "s \<in> set (sites2 cs)"
    then show "\<exists>b'. for_each mark_second (py_range (sbegin s - 1) (send s)) b = Inr b'
                   \<and> length b' = seq_length cs"
      using in2 [of s] by (intro mark_second_total) simp_all
  qed
  with a1(1) show ?thesis
    by (auto simp: classify_symbols_def)
qed

lemma init_total:
  "sites_in_range cs \<Longrightarrow> \<exists>c. BasicBooleanSequenceCalculator_init op cs = Inr c"
  using classify_symbols_total [of cs "replicate (seq_length cs) 0"]
  by (auto simp: BasicBooleanSequenceCalculator_init_def)

text \<open>
  C9, as stated, fails with gross counting: for the sequence of length 3 with the
  annotation-1 sites [1,2] and [2,3] and no annotation-2 site, \<open>calculate_residue_wise\<close>
  leaves pp = 0 (the gross branch does not assign it), pa = 4, ap = 0 and aa = 0, whose
  sum is 4.
\<close>

theorem gross_counts_exceed_length:
  "BasicBooleanSequenceCalculator_init gross_options gross_sequence = Inr gross_calculator
   \<and> residue_wise_counts gross_calculator None = Inr (0, 4, 0, 0)
   \<and> seq_length gross_sequence = 3"
proof (intro conjI)
  show "BasicBooleanSequenceCalculator_init gross_options gross_sequence = Inr gross_calculator"
    by (simp add: BasicBooleanSequenceCalculator_init_def classify_symbols_def gross_sequence_def
      gross_calculator_def sites_def mk_site_def py_range_def upto_rec1 mark_first_def
      mark_second_def np_index_def numeral_eq_Suc)
  show "residue_wise_counts gross_calculator None = Inr (0, 4, 0, 0)"
    by (simp add: residue_wise_counts_def calculate_residue_wise_def gross_calculator_def
        gross_options_def example_options_def gross_sequence_def gross_annotation_def
        gross_site_def if_handler_def Let_def symbol_counts_def mk_site_def py_slice_def sites_def
        slice_bound_def count_eq_def BasicBooleanMeasures_init_def)
  show "seq_length gross_sequence = 3"
    by (simp add: gross_sequence_def)
qed

text \<open>
  C9, amended.  Without gross counting: the constructor succeeds when the sites lie
  within the sequence, and for every calculator it returns, \<open>calculate_residue_wise\<close>
  returns (with any detailed file or none) and the four counts add up to the length of
  the sequence.
\<close>

theorem residue_wise_counts_sum:
  assumes "\<not> gross op"
  shows "(sites_in_range cs \<longrightarrow> (\<exists>c. BasicBooleanSequenceCalculator_init op cs = Inr c))
       \<and> (\<forall>c. BasicBooleanSequenceCalculator_init op cs = Inr c \<longrightarrow>
            (\<exists>n_pp n_pa n_ap n_aa.
               residue_wise_counts c detailed_file_h = Inr (n_pp, n_pa, n_ap, n_aa)
               \<and> n_pp + n_pa + n_ap + n_aa = int (seq_length cs)))"
proof (intro conjI impI allI)
  assume "sites_in_range cs"
  then show "\<exists>c. BasicBooleanSequenceCalculator_init op cs = Inr c" by (rule init_total)
next
  fix c
  assume init: "BasicBooleanSequenceCalculator_init op cs = Inr c"
  note c = init_classified [OF init]
  from c assms have plain: "\<not> gross (opt c)" by simp
  from c have "count_eq (seq c) 3 + count_eq (seq c) 1 + count_eq (seq c) 2 + count_eq (seq c) 0
                 = int (seq_length cs)"
    using counts_sum [of "seq c"] by (simp add: classified_def)
  with residue_wise_counts_plain [OF plain, of detailed_file_h]
  show "\<exists>n_pp n_pa n_ap n_aa.
               residue_wise_counts c detailed_file_h = Inr (n_pp, n_pa, n_ap, n_aa)
               \<and> n_pp + n_pa + n_ap + n_aa = int (seq_length cs)"
    by simp
qed

theorem residue_wise_counts_sum_witness:
  "(\<exists>c. BasicBooleanSequenceCalculator_init example_options example_sequence = Inr c)
   \<and> (\<exists>n_pp n_pa n_ap n_aa.
         residue_wise_counts example_calculator (Some []) = Inr (n_pp, n_pa, n_ap, n_aa)
         \<and> n_pp + n_pa + n_ap + n_aa = 10)"
  using residue_wise_counts_sum [of example_options example_sequence "Some []"] example_init
  by (simp add: example_options_def example_sequence_def sites_in_range_def mk_site_def)

subsection \<open>The site-wise counts\<close>

lemma for_each_count:
  fixes f :: "'s \<Rightarrow> int"
  assumes "for_each body xs s = Inr s'"
    and "\<And>s x s'. body s x = Inr s' \<Longrightarrow> f s' = f s + d"
  shows "f s' = f s + int (length xs) * d"
  using assms(1)
proof (induction xs arbitrary: s)
  case Nil
  then show ?case by simp
next
  case (Cons x xs)
  from Cons.prems obtain s1 where s1: "body s x = Inr s1" and rest: "for_each body xs s1 = Inr s'"
    by (auto simp: bind_eq_Inr)
  from assms(2) [OF s1] Cons.IH [OF rest] show ?case
    by (simp add: algebra_simps)
qed

lemma site_step_count:
  assumes "site_step op cs i st site = Inr st'"
  shows "site_n (fst st') k = site_n (fst st) k + (if k = i then 1 else 0)"
proof -
  obtain r dh sh le where st: "st = (r, dh, sh, le)" by (cases st)
  show ?thesis
    using assms unfolding st site_step_def Let_def
    by (auto simp: bind_eq_Inr site_n_def split: if_splits option.splits)
qed

lemma annotation_sites_count:
  assumes "annotation_sites op cs i st = Inr st'"
  shows "site_n (fst st') k = site_n (fst st) k + (if k = i then int (length (sites cs i)) else 0)"
proof -
  obtain r dh sh where st: "st = (r, dh, sh)" by (cases st)
  from assms obtain st1 where
    loop: "for_each (site_step op cs i) (sites cs i) (r, dh, sh, 0) = Inr st1"
    and fst: "fst st' = fst st1"
    unfolding st annotation_sites_def
    by (auto simp: bind_eq_Inr split: prod.splits)
  have "site_n (fst st1) k = site_n (fst (r, dh, sh, 0 :: int)) k
          + int (length (sites cs i)) * (if k = i then 1 else 0)"
    using loop by (rule for_each_count) (rule site_step_count)
  with fst st show ?thesis by simp
qed

lemma patched_site_step_count:
  assumes "patched_site_step c i st site = Inr st'"
  shows "site_n (fst st') k = site_n (fst st) k + (if k = i then 1 else 0)"
proof -
  obtain r dh sh where st: "st = (r, dh, sh)" by (cases st)
  show ?thesis
    using assms unfolding st patched_site_step_def Let_def
    by (auto simp: bind_eq_Inr site_n_def split: if_splits)
qed

lemma calculate_site_wise_count:
  assumes "calculate_site_wise c dh sh = Inr (c', dh', sh')"
  shows "site_n (results c') k = site_n (results c) k
           + (if k = 1 then int (length (sites1 (current_seq c))) else 0)
           + (if k = 2 then int (length (sites2 (current_seq c))) else 0)"
proof -
  from assms [unfolded calculate_site_wise_def bind_eq_Inr] obtain res where
    branch0: "(if overlap_apply (opt c) = ''shortest'' \<or> overlap_apply (opt c) = ''longest''
           \<or> overlap_apply (opt c) = ''current''
        then bind (annotation_sites (opt c) (current_seq c) 1 (results c, dh, sh))
               (\<lambda>st. bind (annotation_sites (opt c) (current_seq c) 2 st)
                  (\<lambda>st'. Inr (st', Some 1)))
        else if overlap_apply (opt c) = ''patched''
        then bind (for_each (patched_site_step c 1) (sites (current_seq c) 1) (results c, dh, sh))
               (\<lambda>st. bind (for_each (patched_site_step c 2) (sites (current_seq c) 2) st)
                  (\<lambda>st'. Inr (st', None)))
        else Inl (SystemExit ''Unknown overlap apply method'')) = Inr res"
    and fin: "(case res of ((r, dh, sh), j) \<Rightarrow>
          bind (for_each (summary_step (opt c) j r) [1, 2] dh)
            (\<lambda>dh'. Inr (c\<lparr>results := r\<rparr>, dh', sh))) = Inr (c', dh', sh')"
    by blast
  obtain r dh1 sh1 j where res: "res = ((r, dh1, sh1), j)"
    by (metis prod.exhaust)
  note branch = branch0 [unfolded res]
  from fin have c': "results c' = r"
    unfolding res by (auto simp: bind_eq_Inr)
  consider (pairwise) "overlap_apply (opt c) = ''shortest'' \<or> overlap_apply (opt c) = ''longest''
           \<or> overlap_apply (opt c) = ''current''"
    | (patched) "\<not> (overlap_apply (opt c) = ''shortest'' \<or> overlap_apply (opt c) = ''longest''
           \<or> overlap_apply (opt c) = ''current'')" "overlap_apply (opt c) = ''patched''"
    | (unknown) "\<not> (overlap_apply (opt c) = ''shortest'' \<or> overlap_apply (opt c) = ''longest''
           \<or> overlap_apply (opt c) = ''current'')" "overlap_apply (opt c) \<noteq> ''patched''"
    by blast
  then have "site_n r k = site_n (results c) k
           + (if k = 1 then int (length (sites1 (current_seq c))) else 0)
           + (if k = 2 then int (length (sites2 (current_seq c))) else 0)"
  proof cases
    case pairwise
    with branch obtain st1 where
      one: "annotation_sites (opt c) (current_seq c) 1 (results c, dh, sh) = Inr st1"
      and two: "annotation_sites (opt c) (current_seq c) 2 st1 = Inr (r, dh1, sh1)"
      by (auto simp: bind_eq_Inr)
    from annotation_sites_count [OF one, of k] annotation_sites_count [OF two, of k]
    show ?thesis by simp
  next
    case patched
    with branch obtain st1 where
      one: "for_each (patched_site_step c 1) (sites (current_seq c) 1) (results c, dh, sh) = Inr st1"
      and two: "for_each (patched_site_step c 2) (sites (current_seq c) 2) st1 = Inr (r, dh1, sh1)"
      by (auto simp: bind_eq_Inr)
    have "site_n (fst st1) k = site_n (fst (results c, dh, sh)) k
            + int (length (sites (current_seq c) 1)) * (if k = 1 then 1 else 0)"
      using one by (rule for_each_count) (rule patched_site_step_count)
    moreover have "site_n (fst (r, dh1, sh1)) k = site_n (fst st1) k
            + int (length (sites (current_seq c) 2)) * (if k = 2 then 1 else 0)"
      using two by (rule for_each_count) (rule patched_site_step_count)
    ultimately show ?thesis by simp
  next
    case unknown
    with branch show ?thesis by simp
  qed
  with c' show ?thesis by simp
qed


lemma site_length_positive:
  assumes "pairwise_policy op" "sbegin site \<le> send site" "sbegin site' \<le> send site'"
  shows "\<exists>l. get_site_length op site site' = Some l \<and> l \<noteq> 0"
  using assms by (auto simp: get_site_length_def pairwise_policy_def)

lemma check_pyint_total:
  "l \<noteq> 0 \<Longrightarrow> \<exists>b. check_overlap_sufficiency op (PyInt x) (Some l) = Inr b"
  by (auto simp: check_overlap_sufficiency_def)

lemma check_npint_total:
  "\<exists>b. check_overlap_sufficiency op (NpInt x) (Some l) = Inr b"
  by (auto simp: check_overlap_sufficiency_def)

lemma find_match_total:
  assumes "pairwise_policy op" "sbegin site \<le> send site" "list_all (\<lambda>s. sbegin s \<le> send s) cands"
  shows "\<exists>m. find_match op site i cands = Inr m"
  using assms(3)
proof (induction cands)
  case Nil
  then show ?case by simp
next
  case (Cons cand cands)
  then have wf: "sbegin cand \<le> send cand" and rest: "\<exists>m. find_match op site i cands = Inr m"
    by simp_all
  from site_length_positive [OF assms(1,2) wf] obtain l where
    l: "get_site_length op site cand = Some l" "l \<noteq> 0" by blast
  from check_pyint_total [OF l(2)] obtain b where
    "check_overlap_sufficiency op (PyInt (get_overlapped_symbols op site cand i)) (Some l) = Inr b"
    by blast
  with l(1) rest show ?case by (simp add: Let_def)
qed

lemma site_step_total:
  assumes "pairwise_policy op" "sbegin site \<le> send site"
    "list_all (\<lambda>s. sbegin s \<le> send s) (sites cs (3 - i))"
  shows "\<exists>r' le'. site_step op cs i (r, None, None, le) site = Inr (r', None, None, le')"
proof -
  from find_match_total [OF assms] obtain m where
    "find_match op site i (sites cs (3 - i)) = Inr m" by blast
  then show ?thesis by (simp add: site_step_def Let_def)
qed

lemma annotation_sites_total:
  assumes "pairwise_policy op" "list_all (\<lambda>s. sbegin s \<le> send s) (sites cs i)"
    "list_all (\<lambda>s. sbegin s \<le> send s) (sites cs (3 - i))"
  shows "\<exists>r'. annotation_sites op cs i (r, None, None) = Inr (r', None, None)"
proof -
  let ?P = "\<lambda>st :: int BasicBooleanMeasures \<times> file_handler \<times> file_handler \<times> int.
              fst (snd st) = None \<and> fst (snd (snd st)) = None"
  have "\<exists>st'. for_each (site_step op cs i) (sites cs i) (r, None, None, 0) = Inr st' \<and> ?P st'"
  proof (rule for_each_total [where P = ?P])
    show "?P (r, None, None, 0)" by simp
  next
    fix st :: "int BasicBooleanMeasures \<times> file_handler \<times> file_handler \<times> int" and site
    assume P: "?P st" and mem: "site \<in> set (sites cs i)"
    obtain r0 dh sh le where st: "st = (r0, dh, sh, le)" by (cases st)
    from mem assms(2) have "sbegin site \<le> send site" by (simp add: list_all_iff)
    from site_step_total [OF assms(1) this assms(3), of r0 le] P
    show "\<exists>st'. site_step op cs i st site = Inr st' \<and> ?P st'"
      unfolding st by auto
  qed
  then show ?thesis
    by (auto simp: annotation_sites_def)
qed

lemma patched_site_step_total:
  "\<exists>r'. patched_site_step c i (r, None, None) site = Inr (r', None, None)"
proof -
  from check_npint_total obtain b where
    "check_overlap_sufficiency (opt c)
       (NpInt (count_eq (py_slice (seq c) (sbegin site - 1) (send site)) 3))
       (Some (send site - sbegin site + 1)) = Inr b"
    by blast
  then show ?thesis
    by (simp add: patched_site_step_def Let_def if_handler_def)
qed

lemma patched_sites_total:
  "\<exists>r'. for_each (patched_site_step c i) ss (r, None, None) = Inr (r', None, None)"
proof (induction ss arbitrary: r)
  case Nil
  then show ?case by simp
next
  case (Cons site ss)
  from patched_site_step_total [of c i r site] obtain r1 where
    "patched_site_step c i (r, None, None) site = Inr (r1, None, None)" by blast
  with Cons.IH [of r1] show ?case by simp
qed

lemma summary_step_none: "summary_step op j r None i = Inr None"
  by (simp add: summary_step_def if_handler_def Let_def)

lemma summary_none: "for_each (summary_step op j r) annotations None = Inr None"
  by (induction annotations) (simp_all add: summary_step_none)

lemma calculate_site_wise_total:
  assumes "overlap_apply (opt c) \<in> {''shortest'', ''longest'', ''current'', ''patched''}"
    and "sites_well_formed (current_seq c)"
  shows "\<exists>c'. calculate_site_wise c None None = Inr (c', None, None)"
proof (cases "pairwise_policy (opt c)")
  case True
  from assms(2) have wf1': "list_all (\<lambda>s. sbegin s \<le> send s) (sites1 (current_seq c))"
    and wf2': "list_all (\<lambda>s. sbegin s \<le> send s) (sites2 (current_seq c))"
    by (simp_all add: sites_well_formed_def)
  have other: "sites (current_seq c) (3 - 1) = sites2 (current_seq c)"
    "sites (current_seq c) (3 - 2) = sites1 (current_seq c)"
    by simp_all
  have "\<exists>r1. annotation_sites (opt c) (current_seq c) 1 (results c, None, None)
               = Inr (r1, None, None)"
    by (rule annotation_sites_total [OF True]) (simp_all only: other sites_simps wf1' wf2')
  then obtain r1 where one:
    "annotation_sites (opt c) (current_seq c) 1 (results c, None, None) = Inr (r1, None, None)"
    by blast
  have "\<exists>r2. annotation_sites (opt c) (current_seq c) 2 (r1, None, None)
               = Inr (r2, None, None)"
    by (rule annotation_sites_total [OF True]) (simp_all only: other sites_simps wf1' wf2')
  then obtain r2 where two:
    "annotation_sites (opt c) (current_seq c) 2 (r1, None, None) = Inr (r2, None, None)"
    by blast
  from True one two show ?thesis
    unfolding calculate_site_wise_def pairwise_policy_def
    by (simp add: summary_none del: for_each.simps)
next
  case False
  with assms(1) have patched: "overlap_apply (opt c) = ''patched''"
    by (auto simp: pairwise_policy_def)
  from patched_sites_total [of c 1 "sites (current_seq c) 1" "results c"] obtain r1 where one:
    "for_each (patched_site_step c 1) (sites (current_seq c) 1) (results c, None, None)
       = Inr (r1, None, None)" by blast
  from patched_sites_total [of c 2 "sites (current_seq c) 2" r1] obtain r2 where two:
    "for_each (patched_site_step c 2) (sites (current_seq c) 2) (r1, None, None)
       = Inr (r2, None, None)" by blast
  from False patched one two show ?thesis
    unfolding calculate_site_wise_def pairwise_policy_def
    by (simp add: summary_none del: for_each.simps)
qed

text \<open>
  C10.  Let the counts \<open>site_m[i]\<close> and \<open>site_nm[i]\<close> of annotation \<open>i\<close> be zero, as
  they are in a new calculator.  Whenever \<open>calculate_site_wise\<close> completes, whatever the
  options and the output files, \<open>site_m[i] + site_nm[i]\<close> is the number of sites of
  annotation \<open>i\<close> in the sequence; and it does complete, without output files, under
  each of the four \<open>overlap_apply\<close> policies when every site has \<open>begin \<le> end\<close>.
\<close>

theorem site_counts_add_up:
  assumes "site_m (results c) i = 0" "site_nm (results c) i = 0" "i = 1 \<or> i = 2"
  shows "(\<forall>c' dh' sh'. calculate_site_wise c dh sh = Inr (c', dh', sh') \<longrightarrow>
            site_m (results c') i + site_nm (results c') i
              = int (length (sites (current_seq c) i)))
       \<and> (overlap_apply (opt c) \<in> {''shortest'', ''longest'', ''current'', ''patched''}
            \<and> sites_well_formed (current_seq c) \<longrightarrow>
          (\<exists>c'. calculate_site_wise c None None = Inr (c', None, None)))"
proof (intro conjI allI impI)
  fix c' dh' sh'
  assume "calculate_site_wise c dh sh = Inr (c', dh', sh')"
  from calculate_site_wise_count [OF this, of i] assms
  show "site_m (results c') i + site_nm (results c') i = int (length (sites (current_seq c) i))"
    by (auto simp: site_n_def)
next
  assume "overlap_apply (opt c) \<in> {''shortest'', ''longest'', ''current'', ''patched''}
            \<and> sites_well_formed (current_seq c)"
  then show "\<exists>c'. calculate_site_wise c None None = Inr (c', None, None)"
    using calculate_site_wise_total by blast
qed

theorem site_counts_add_up_witness:
  "(\<exists>c'. calculate_site_wise example_calculator None None = Inr (c', None, None)
         \<and> site_m (results c') 1 + site_nm (results c') 1 = 1)"
  using site_counts_add_up [of example_calculator 1 None None]
  by (auto simp: example_calculator_def example_options_def example_sequence_def
      BasicBooleanMeasures_init_def sites_well_formed_def mk_site_def)

subsection \<open>The residue-wise measures in enrichment mode\<close>

lemma ceil_log2_le: "n \<le> 2 ^ k \<Longrightarrow> ceil_log2 n \<le> k"
proof (induction k arbitrary: n)
  case 0
  then show ?case by (subst ceil_log2.simps) simp
next
  case (Suc k)
  show ?case
  proof (cases "n \<le> 1")
    case True
    then show ?thesis by (subst ceil_log2.simps) simp
  next
    case False
    from Suc.prems have "(n + 1) div 2 \<le> 2 ^ k" by simp
    then have "ceil_log2 ((n + 1) div 2) \<le> k" by (rule Suc.IH)
    with False show ?thesis by (subst ceil_log2.simps) simp
  qed
qed

lemma estimate_total:
  assumes "length (sites1 cs) < 2 ^ 63" "length (sites2 cs) < 2 ^ 63"
  shows "\<exists>b. estimate_required_precison cs = Inr b"
proof -
  from assms have "max (length (sites1 cs)) (length (sites2 cs)) + 1 \<le> 2 ^ 63"
    by simp
  then have "ceil_log2 (max (length (sites1 cs)) (length (sites2 cs)) + 1) \<le> 63"
    by (rule ceil_log2_le)
  then have "(ceil_log2 (max (length (sites1 cs)) (length (sites2 cs)) + 1) + 1 + 7) div 8 \<le> 8"
    by simp
  then show ?thesis
    by (simp add: estimate_required_precison_def Let_def)
qed

lemma increment_site_total:
  assumes "1 \<le> sbegin site" "send site \<le> int n" "length a = n"
  shows "\<exists>a'. for_each increment (py_range (sbegin site - 1) (send site)) a = Inr a'
              \<and> length a' = n"
proof (rule for_each_total [where P = "\<lambda>a. length a = n"])
  show "length a = n" by (rule assms(3))
next
  fix b :: "int list" and idx
  assume "length b = n" "idx \<in> set (py_range (sbegin site - 1) (send site))"
  with assms(1,2) show "\<exists>b'. increment b idx = Inr b' \<and> length b' = n"
    by (simp add: set_py_range increment_def np_index_in_range)
qed

lemma count_sites_total:
  assumes "list_all (\<lambda>s. 1 \<le> sbegin s \<and> send s \<le> int n) ss" "length a = n"
  shows "\<exists>a'. count_sites ss a = Inr a'"
proof -
  have "\<exists>a'. for_each (\<lambda>a site. for_each increment (py_range (sbegin site - 1) (send site)) a)
               ss a = Inr a' \<and> length a' = n"
  proof (rule for_each_total [where P = "\<lambda>a. length a = n"])
    show "length a = n" by (rule assms(2))
  next
    fix b :: "int list" and s
    assume "length b = n" "s \<in> set ss"
    with assms(1) show "\<exists>b'. for_each increment (py_range (sbegin s - 1) (send s)) b = Inr b'
                   \<and> length b' = n"
      by (intro increment_site_total) (simp_all add: list_all_iff)
  qed
  then show ?thesis by (auto simp: count_sites_def)
qed

lemma enrichment_init_total:
  assumes "sites_in_range cs" "length (sites1 cs) < 2 ^ 63" "length (sites2 cs) < 2 ^ 63"
  shows "\<exists>self. BasicEnrichmentSequenceCalculator_init op cs = Inr self"
proof -
  from estimate_total [OF assms(2,3)] obtain b where b: "estimate_required_precison cs = Inr b"
    by blast
  from assms(1) have
    "list_all (\<lambda>s. 1 \<le> sbegin s \<and> send s \<le> int (seq_length cs)) (sites1 cs)"
    "list_all (\<lambda>s. 1 \<le> sbegin s \<and> send s \<le> int (seq_length cs)) (sites2 cs)"
    by (simp_all add: sites_in_range_def)
  from count_sites_total [OF this(1), of "replicate (seq_length cs) 0"]
    count_sites_total [OF this(2), of "replicate (seq_length cs) 0"]
  obtain a1 a2 where
    "count_sites (sites1 cs) (replicate (seq_length cs) 0) = Inr a1"
    "count_sites (sites2 cs) (replicate (seq_length cs) 0) = Inr a2"
    by auto
  with b show ?thesis
    by (simp add: BasicEnrichmentSequenceCalculator_init_def count_occurrences_def Let_def)
qed

lemma ceil_log2_1: "ceil_log2 (Suc 0) = 0"
  by (subst ceil_log2.simps) simp

lemma ceil_log2_2: "ceil_log2 (Suc (Suc 0)) = Suc 0"
  by (subst ceil_log2.simps) (simp add: ceil_log2_1)

lemma example_precision: "estimate_required_precison example_sequence = Inr 1"
  by (simp add: estimate_required_precison_def example_sequence_def sites_def ceil_log2_2
      Let_def)

lemma example_counts:
  "count_occurrences example_sequence (replicate 10 0, replicate 10 0)
     = Inr ([1, 1, 1, 1, 1, 0, 0, 0, 0, 0], [0, 0, 1, 1, 1, 1, 1, 1, 0, 0])"
  by (simp add: count_occurrences_def count_sites_def increment_def np_index_def py_range_def
      upto_rec1 example_sequence_def sites_def mk_site_def numeral_eq_Suc)

lemma example_enrichment_init:
  "\<exists>self. BasicEnrichmentSequenceCalculator_init enrichment_options example_sequence = Inr self"
proof -
  have "seq_length example_sequence = 10" by (simp add: example_sequence_def)
  then show ?thesis
    by (simp add: BasicEnrichmentSequenceCalculator_init_def example_precision example_counts
        Let_def)
qed

lemma init_attributes:
  assumes "BasicEnrichmentSequenceCalculator_init op cs = Inr self"
  shows "\<exists>a1 a2. self = (BasicSequenceCalculator_init op cs)
                 (''n'' \<mapsto> VInt (enrichment_count op), ''seq'' \<mapsto> VCounts a1 a2,
                  ''results'' \<mapsto> VEnrichment BasicEnrichmentMeasures_init)"
  using assms
  by (auto simp: BasicEnrichmentSequenceCalculator_init_def Let_def bind_eq_Inr)

lemma raises_without_file:
  assumes "self = (BasicSequenceCalculator_init op cs)
                 (''n'' \<mapsto> VInt n, ''seq'' \<mapsto> VCounts a1 a2,
                  ''results'' \<mapsto> VEnrichment r)"
  shows "enrichment_calculate_residue_wise self None = Inl (AttributeError ''write'')"
  unfolding assms
  by (simp add: enrichment_calculate_residue_wise_def enrichment_step_def get_measures_def
      get_counts_def get_int_def getattr_def BasicSequenceCalculator_init_def
      write_enriched_info_def Let_def)

lemma raises_with_file:
  assumes "self = (BasicSequenceCalculator_init op cs)
                 (''n'' \<mapsto> VInt n, ''seq'' \<mapsto> VCounts a1 a2,
                  ''results'' \<mapsto> VEnrichment r)"
  shows "enrichment_calculate_residue_wise self (Some fh) = Inl (AttributeError ''seq_length'')"
  unfolding assms
  by (simp add: enrichment_calculate_residue_wise_def enrichment_step_def get_measures_def
      get_counts_def get_int_def getattr_def BasicSequenceCalculator_init_def
      write_enriched_info_def Let_def)

text \<open>
  C4.  In enrichment mode the constructor succeeds when the sites lie within the sequence
  (and are fewer than \<open>2 ^ 63\<close>), and on every calculator it returns,
  \<open>calculate_residue_wise\<close> raises instead of returning: no assignment has created the
  attribute \<open>seq_length\<close>; with no detailed file the first call of \<open>write\<close> on
  \<open>None\<close> raises \<open>AttributeError\<close>, and with a detailed file the read of
  \<open>self.seq_length\<close> in the last statement does.
\<close>

theorem enrichment_residue_wise_raises:
  "(sites_in_range cs \<and> length (sites1 cs) < 2 ^ 63 \<and> length (sites2 cs) < 2 ^ 63 \<longrightarrow>
      (\<exists>self. BasicEnrichmentSequenceCalculator_init op cs = Inr self))
   \<and> (\<forall>self. BasicEnrichmentSequenceCalculator_init op cs = Inr self \<longrightarrow>
          self ''seq_length'' = None
          \<and> enrichment_calculate_residue_wise self None = Inl (AttributeError ''write'')
          \<and> enrichment_calculate_residue_wise self (Some fh)
                = Inl (AttributeError ''seq_length''))"
proof (intro conjI impI allI)
  assume "sites_in_range cs \<and> length (sites1 cs) < 2 ^ 63 \<and> length (sites2 cs) < 2 ^ 63"
  then show "\<exists>self. BasicEnrichmentSequenceCalculator_init op cs = Inr self"
    using enrichment_init_total by blast
next
  fix self
  assume init: "BasicEnrichmentSequenceCalculator_init op cs = Inr self"
  from init_attributes [OF init] obtain a1 a2 where
    self: "self = (BasicSequenceCalculator_init op cs)
                 (''n'' \<mapsto> VInt (enrichment_count op), ''seq'' \<mapsto> VCounts a1 a2,
                  ''results'' \<mapsto> VEnrichment BasicEnrichmentMeasures_init)"
    by blast
  show "self ''seq_length'' = None"
    unfolding self by (simp add: BasicSequenceCalculator_init_def)
  show "enrichment_calculate_residue_wise self None = Inl (AttributeError ''write'')"
    by (rule raises_without_file [OF self])
  show "enrichment_calculate_residue_wise self (Some fh) = Inl (AttributeError ''seq_length'')"
    by (rule raises_with_file [OF self])
qed

theorem enrichment_residue_wise_raises_witness:
  "\<exists>self. BasicEnrichmentSequenceCalculator_init enrichment_options example_sequence = Inr self
      \<and> enrichment_calculate_residue_wise self None = Inl (AttributeError ''write'')
      \<and> enrichment_calculate_residue_wise self (Some []) = Inl (AttributeError ''seq_length'')"
proof -
  from example_enrichment_init obtain self where
    init: "BasicEnrichmentSequenceCalculator_init enrichment_options example_sequence = Inr self"
    by blast
  from enrichment_residue_wise_raises [of example_sequence enrichment_options "[]"] init
  show ?thesis by blast
qed

end
